theory Spec2Isabelle
  imports Main
begin

section \<open>Test-fixture generators for identity documents\<close>

text \<open>
  The repository holds four Python scripts (\<^verbatim>\<open>create-test-aadhaar.py\<close>,
  \<^verbatim>\<open>create-test-pan.py\<close>, \<^verbatim>\<open>create-test-passport.py\<close>,
  \<^verbatim>\<open>create-test-visa.py\<close>). Each one allocates a blank image with the
  drawing library, loads three fonts (falling back to the built-in one), draws rectangles
  and text lines, saves the image as a JPEG file and prints the values an extraction
  pipeline is expected to find.

  The scripts are straight-line code, so each is modelled as a list of statements run in
  order over an explicit state. Everything outside the scripts (the font files of the host,
  whether a path can be written, the files on disk, the console) is a field of the record
  \<open>world\<close>. The drawing library is not part of the repository: an image is modelled by
  its mode, size, background colour and the list of drawing operations applied to it, in
  the order of application, and a saved file by the format, the quality setting and the
  image handed to the encoder.
\<close>

subsection \<open>Exceptions, fonts, images, files\<close>

datatype exn =
    KeyError string
  | OSError string
  | ValueError string
  | ImportError string
  | MemoryError
  | KeyboardInterrupt

type_synonym 'a result = "exn + 'a"

datatype font = FreeTypeFont string nat | DefaultFont

datatype paint_op =
    Rectangle "int list" "string option" "string option" nat
  | Text "int \<times> int" string font string
  | Resample "nat \<times> nat" "nat \<times> nat"

record image =
  img_mode :: string
  img_size :: "nat \<times> nat"
  img_colour :: string
  img_ops :: "paint_op list"

datatype disk_file = Encoded string nat image

record world =
  argv :: "string list"
  environ :: "(string \<times> string) list"
  import_error :: "string option"
  truetype :: "string \<Rightarrow> nat \<Rightarrow> exn + font"
  write_error :: "string \<Rightarrow> string option"
  files :: "string \<Rightarrow> disk_file option"
  console :: "string list"
  stdout_error :: "string option"

text \<open>
  \<open>truetype w path size\<close> is what \<^verbatim>\<open>ImageFont.truetype(path, size)\<close> does on the
  host: it returns a font or raises an exception, whichever exception that is.
  \<open>write_error w path\<close> is \<open>Some msg\<close> when opening \<open>path\<close> for writing raises
  \<^verbatim>\<open>OSError(msg)\<close> (read-only directory, full disk) and \<open>None\<close> when the write
  goes through. \<open>argv\<close> and \<open>environ\<close> are the command line and the environment of the
  process; \<open>console\<close> holds the strings passed to \<^verbatim>\<open>print\<close>, oldest first.
  \<open>import_error w\<close> is \<open>Some msg\<close> when the drawing library is not installed, so that
  \<^verbatim>\<open>from PIL import Image, ImageDraw, ImageFont\<close> raises
  \<^verbatim>\<open>ModuleNotFoundError(msg)\<close>, a subclass of \<^verbatim>\<open>ImportError\<close>.
  \<open>stdout_error w\<close> is \<open>Some msg\<close> when standard output cannot take what is written to
  it (a full device, a pipe whose reader is gone): writing the buffered output then raises
  \<^verbatim>\<open>OSError(msg)\<close>.
\<close>

subsection \<open>The library calls the scripts make\<close>

definition Image_new :: "string \<Rightarrow> nat \<times> nat \<Rightarrow> string \<Rightarrow> image" where
  "Image_new m sz c = \<lparr>img_mode = m, img_size = sz, img_colour = c, img_ops = []\<rparr>"

text \<open>
  \<^verbatim>\<open>image.resize(size)\<close> returns the picture resampled from the size it has to the
  size asked for; the operation recorded keeps both sizes.
\<close>

definition resize :: "nat \<times> nat \<Rightarrow> image \<Rightarrow> image" where
  "resize sz img = img\<lparr>img_size := sz, img_ops := img_ops img @ [Resample (img_size img) sz]\<rparr>"

definition load_default :: font where
  "load_default = DefaultFont"

text \<open>
  The \<^verbatim>\<open>try\<close> block of every script loads the three fonts one after the other; the
  bare \<^verbatim>\<open>except:\<close> catches whatever any of the three calls raises and rebinds all
  three names to the built-in font.
\<close>

definition load_fonts :: "world \<Rightarrow> string \<Rightarrow> nat \<Rightarrow> nat \<Rightarrow> nat \<Rightarrow> font \<times> font \<times> font" where
  "load_fonts w path large medium small =
     (case truetype w path large of
        Inl _ \<Rightarrow> (load_default, load_default, load_default)
      | Inr font_large \<Rightarrow>
          (case truetype w path medium of
             Inl _ \<Rightarrow> (load_default, load_default, load_default)
           | Inr font_medium \<Rightarrow>
               (case truetype w path small of
                  Inl _ \<Rightarrow> (load_default, load_default, load_default)
                | Inr font_small \<Rightarrow> (font_large, font_medium, font_small))))"

text \<open>
  A record of a script is a Python dict literal with distinct keys; \<open>getitem d k\<close> is
  \<^verbatim>\<open>d[k]\<close>, which raises \<^verbatim>\<open>KeyError\<close> on a missing key.
\<close>

type_synonym pydict = "(string \<times> string) list"

definition getitem :: "pydict \<Rightarrow> string \<Rightarrow> string result" where
  "getitem d k = (case map_of d k of None \<Rightarrow> Inl (KeyError k) | Some v \<Rightarrow> Inr v)"

text \<open>
  An f-string is evaluated piece by piece from left to right: a literal piece is
  \<open>Inr s\<close>, a piece \<^verbatim>\<open>{d['k']}\<close> is \<open>getitem d k\<close>. The first piece that raises
  ends the evaluation.
\<close>

fun fstring :: "string result list \<Rightarrow> string result" where
  "fstring [] = Inr []"
| "fstring (p # ps) =
     (case p of
        Inl e \<Rightarrow> Inl e
      | Inr s \<Rightarrow> (case fstring ps of Inl e \<Rightarrow> Inl e | Inr t \<Rightarrow> Inr (s @ t)))"

text \<open>
  A statement takes the state to an optional exception and the state reached. The state of
  a script is the image it draws on, paired with the world.
\<close>

type_synonym 's stmt = "'s \<Rightarrow> exn option \<times> 's"

fun run_stmts :: "'s stmt list \<Rightarrow> 's stmt" where
  "run_stmts [] s = (None, s)"
| "run_stmts (f # fs) s =
     (case f s of
        (Some e, s') \<Rightarrow> (Some e, s')
      | (None, s') \<Rightarrow> run_stmts fs s')"

definition rectangle ::
  "int list \<Rightarrow> string option \<Rightarrow> string option \<Rightarrow> nat \<Rightarrow> (image \<times> world) stmt" where
  "rectangle xy fill outline width s =
     (case s of (img, w) \<Rightarrow>
        (None, (img\<lparr>img_ops := img_ops img @ [Rectangle xy fill outline width]\<rparr>, w)))"

definition draw_text ::
  "int \<times> int \<Rightarrow> string result \<Rightarrow> font \<Rightarrow> string \<Rightarrow> (image \<times> world) stmt" where
  "draw_text xy str fnt fill s =
     (case s of (img, w) \<Rightarrow>
        (case str of
           Inl e \<Rightarrow> (Some e, (img, w))
         | Inr t \<Rightarrow> (None, (img\<lparr>img_ops := img_ops img @ [Text xy t fnt fill]\<rparr>, w))))"

definition save :: "string \<Rightarrow> string \<Rightarrow> nat \<Rightarrow> (image \<times> world) stmt" where
  "save path fmt q s =
     (case s of (img, w) \<Rightarrow>
        (case write_error w path of
           Some msg \<Rightarrow> (Some (OSError msg), (img, w))
         | None \<Rightarrow> (None, (img, w\<lparr>files := (files w)(path \<mapsto> Encoded fmt q img)\<rparr>))))"

text \<open>
  \<^verbatim>\<open>print(s)\<close> evaluates its argument and hands the line to
  \<^verbatim>\<open>sys.stdout\<close>. The interpreter is started as \<^verbatim>\<open>python3 script.py\<close>:
  standard output is then buffered, a script prints far less than the buffer holds, and so
  a line that standard output cannot take does not fail in \<^verbatim>\<open>print\<close>; it fails
  when the interpreter flushes the buffer at exit (see \<open>python3\<close> below). With
  \<^verbatim>\<open>python3 -u\<close> the write would raise inside \<^verbatim>\<open>print\<close>; that way of
  starting a script is not modelled.
\<close>

definition print :: "string result \<Rightarrow> (image \<times> world) stmt" where
  "print str s =
     (case s of (img, w) \<Rightarrow>
        (case str of
           Inl e \<Rightarrow> (Some e, (img, w))
         | Inr t \<Rightarrow> (None, (img, w\<lparr>console := console w @ [t]\<rparr>))))"

subsection \<open>create-test-aadhaar.py\<close>

definition aadhaar_data :: pydict where
  "aadhaar_data =
     [(''name'', ''KATRINA UUENI''),
      (''aadhaar_number'', ''1234 5678 9012''),
      (''date_of_birth'', ''1990-10-19''),
      (''address'', ''Tallinn, Estonia''),
      (''gender'', ''Female''),
      (''father_name'', ''JOHN UUENI'')]"

text \<open>
  The body of \<^verbatim>\<open>create_test_aadhaar\<close>, with the dict it binds to the local name
  \<^verbatim>\<open>aadhaar_data\<close> as a parameter. The function returns nothing: the result is the
  exception that left it, if any, and the world it leaves behind.
\<close>

definition create_test_aadhaar_on :: "pydict \<Rightarrow> world \<Rightarrow> exn option \<times> world" where
  "create_test_aadhaar_on d w =
     (let width = 600; height = 400;
          image = Image_new ''RGB'' (width, height) ''white''
      in case load_fonts w ''/System/Library/Fonts/Arial.ttf'' 24 16 12 of
        (font_large, font_medium, font_small) \<Rightarrow>
          (let y_pos = 80;
               (r, s) = run_stmts
                 [rectangle [0, 0, int width, 60] (Some ''#FF6B35'') None 1,
                  draw_text (20, 20) (Inr ''Government of India'') font_large ''white'',
                  draw_text (20, 45) (Inr ''Aadhaar'') font_medium ''white'',
                  draw_text (20, y_pos) (fstring [Inr ''Name: '', getitem d ''name''])
                    font_medium ''black'',
                  draw_text (20, y_pos + 25)
                    (fstring [Inr ''Aadhaar No: '', getitem d ''aadhaar_number''])
                    font_medium ''black'',
                  draw_text (20, y_pos + 50)
                    (fstring [Inr ''Date of Birth: '', getitem d ''date_of_birth''])
                    font_medium ''black'',
                  draw_text (20, y_pos + 75) (fstring [Inr ''Gender: '', getitem d ''gender''])
                    font_medium ''black'',
                  draw_text (20, y_pos + 100)
                    (fstring [Inr ''Father's Name: '', getitem d ''father_name''])
                    font_medium ''black'',
                  draw_text (20, y_pos + 125)
                    (fstring [Inr ''Address: '', getitem d ''address''])
                    font_medium ''black'',
                  rectangle [400, 80, 580, 260] None (Some ''black'') 2,
                  draw_text (420, 170) (Inr ''QR Code'') font_small ''black'',
                  draw_text (20, int height - 30)
                    (Inr ''This is a test Aadhaar card for development purposes'')
                    font_small ''gray'',
                  save ''aadhaar.jpg'' ''JPEG'' 95,
                  print (Inr ''Created aadhaar.jpg with Indian Aadhaar data''),
                  print (Inr ''''),
                  print (Inr ''Expected extracted data:''),
                  print (fstring [Inr ''Full Name: '', getitem d ''name'']),
                  print (fstring [Inr ''Aadhaar Number: '', getitem d ''aadhaar_number'']),
                  print (fstring [Inr ''Date of Birth: '', getitem d ''date_of_birth'']),
                  print (fstring [Inr ''Address: '', getitem d ''address'']),
                  print (fstring [Inr ''Gender: '', getitem d ''gender''])]
                 (image, w)
           in (r, snd s)))"

definition create_test_aadhaar :: "world \<Rightarrow> exn option \<times> world" where
  "create_test_aadhaar w = create_test_aadhaar_on aadhaar_data w"

subsection \<open>create-test-pan.py\<close>

definition pan_data :: pydict where
  "pan_data =
     [(''name'', ''KATRINA UUENI''),
      (''pan_number'', ''ABCDE1234F''),
      (''father_name'', ''JOHN UUENI''),
      (''date_of_birth'', ''1990-10-19'')]"

definition create_test_pan_on :: "pydict \<Rightarrow> world \<Rightarrow> exn option \<times> world" where
  "create_test_pan_on d w =
     (let width = 600; height = 400;
          image = Image_new ''RGB'' (width, height) ''#D2B48C''
      in case load_fonts w ''/System/Library/Fonts/Arial.ttf'' 24 16 12 of
        (font_large, font_medium, font_small) \<Rightarrow>
          (let y_pos = 80;
               (r, s) = run_stmts
                 [rectangle [0, 0, int width, 60] (Some ''#8B4513'') None 1,
                  draw_text (20, 20) (Inr ''INCOME TAX DEPARTMENT'') font_large ''white'',
                  draw_text (20, 45) (Inr ''GOVT. OF INDIA'') font_medium ''white'',
                  draw_text (20, y_pos) (Inr ''Permanent Account Number Card'')
                    font_medium ''black'',
                  draw_text (20, y_pos + 30) (fstring [Inr ''Name: '', getitem d ''name''])
                    font_medium ''black'',
                  draw_text (20, y_pos + 55)
                    (fstring [Inr ''Father's Name: '', getitem d ''father_name''])
                    font_medium ''black'',
                  draw_text (20, y_pos + 80)
                    (fstring [Inr ''Date of Birth: '', getitem d ''date_of_birth''])
                    font_medium ''black'',
                  draw_text (20, y_pos + 105) (fstring [Inr ''PAN: '', getitem d ''pan_number''])
                    font_medium ''black'',
                  rectangle [400, 150, 580, 200] None (Some ''black'') 1,
                  draw_text (420, 175) (Inr ''Signature'') font_small ''black'',
                  draw_text (20, int height - 30)
                    (Inr ''This is a test PAN card for development purposes'')
                    font_small ''gray'',
                  save ''pan.jpg'' ''JPEG'' 95,
                  print (Inr ''Created pan.jpg with Indian PAN card data''),
                  print (Inr ''''),
                  print (Inr ''Expected extracted data:''),
                  print (fstring [Inr ''Full Name: '', getitem d ''name'']),
                  print (fstring [Inr ''PAN Number: '', getitem d ''pan_number'']),
                  print (fstring [Inr ''Father's Name: '', getitem d ''father_name'']),
                  print (fstring [Inr ''Date of Birth: '', getitem d ''date_of_birth''])]
                 (image, w)
           in (r, snd s)))"

definition create_test_pan :: "world \<Rightarrow> exn option \<times> world" where
  "create_test_pan w = create_test_pan_on pan_data w"

subsection \<open>create-test-passport.py\<close>

definition passport_data :: pydict where
  "passport_data =
     [(''type'', ''P''),
      (''country_code'', ''EST''),
      (''surname'', ''UUENI''),
      (''given_name'', ''KATRINA''),
      (''personal_code'', ''49010195221''),
      (''date_of_birth'', ''19.10.1990''),
      (''document_number'', ''KF0250087''),
      (''citizenship'', ''EST''),
      (''sex'', ''N/F''),
      (''place_of_birth'', ''EST''),
      (''date_of_issue'', ''13.02.2023''),
      (''date_of_expiry'', ''13.02.2033''),
      (''authority'', ''PPA/PBGB''),
      (''mrz_line1'', ''P<ESTUUENI<<KATRINA<<<<<<<<<<<<''),
      (''mrz_line2'', ''KF02500875EST9010196F330213049010195221<<<08'')]"

text \<open>
  \<^verbatim>\<open>create_passport_image\<close> reads the module-level dict \<^verbatim>\<open>passport_data\<close>
  (the parameter \<open>d\<close>) and returns the image. The source rebinds \<^verbatim>\<open>y_pos\<close>
  between the groups of draw calls; each group is a segment of the statement list. The
  letters u-umlaut and a-umlaut of the Estonian labels are the code points 0xFC and 0xE4.
\<close>

definition create_passport_image_on :: "pydict \<Rightarrow> world \<Rightarrow> image result \<times> world" where
  "create_passport_image_on d w =
     (let width = 600; height = 400;
          image = Image_new ''RGB'' (width, height) ''white''
      in case load_fonts w ''/System/Library/Fonts/Arial.ttf'' 16 12 10 of
        (font_large, font_medium, font_small) \<Rightarrow>
          (case run_stmts
             ([rectangle [10, 10, int width - 10, 50] None (Some ''black'') 2,
               draw_text (20, 20) (Inr ''ESTONIAN PASSPORT'') font_large ''black'']
              @ (let y_pos = 70 in
              [draw_text (20, y_pos) (fstring [Inr ''Liik/Type: '', getitem d ''type''])
                 font_medium ''black'',
               draw_text (20, y_pos + 20)
                 (fstring [Inr ''Riigi kood/Country code: '', getitem d ''country_code''])
                 font_medium ''black''])
              @ (let y_pos = 120 in
              [draw_text (20, y_pos)
                 (fstring [Inr ''1. Perekonnanimi / Surname: '', getitem d ''surname''])
                 font_medium ''black'',
               draw_text (20, y_pos + 20)
                 (fstring [Inr ''2. Eesnimi / Given name: '', getitem d ''given_name''])
                 font_medium ''black'',
               draw_text (20, y_pos + 40)
                 (fstring [Inr ''3. Isikukood / Personal code: '', getitem d ''personal_code''])
                 font_medium ''black'',
               draw_text (20, y_pos + 60)
                 (fstring [Inr ''4. Kodakondsus / Citizenship: '', getitem d ''citizenship''])
                 font_medium ''black'',
               draw_text (20, y_pos + 80)
                 (fstring [Inr (''5. S'' @ [CHR 0xFC] @ ''nniaeg / Date of birth: ''),
                           getitem d ''date_of_birth''])
                 font_medium ''black'',
               draw_text (20, y_pos + 100) (fstring [Inr ''6. Sugu / Sex: '', getitem d ''sex''])
                 font_medium ''black'',
               draw_text (20, y_pos + 120)
                 (fstring [Inr (''7. S'' @ [CHR 0xFC]
                                @ ''nnikoht / Place of birth: Tallinn, Estonia'')])
                 font_medium ''black'',
               draw_text (20, y_pos + 140)
                 (fstring [Inr ''8. Aadress / Address: Tallinn, Estonia''])
                 font_medium ''black''])
              @ (let y_pos = 260 in
              [draw_text (300, y_pos)
                 (fstring [Inr ''Dokumendi number: '', getitem d ''document_number''])
                 font_medium ''black'',
               draw_text (300, y_pos + 20)
                 (fstring [Inr (''8. V'' @ [CHR 0xE4] @ ''lja antud: ''),
                           getitem d ''date_of_issue''])
                 font_medium ''black'',
               draw_text (300, y_pos + 40)
                 (fstring [Inr ''9. Kehtiv kuni: '', getitem d ''date_of_expiry''])
                 font_medium ''black'',
               draw_text (300, y_pos + 60)
                 (fstring [Inr (''11. V'' @ [CHR 0xE4] @ ''ljaandja: ''),
                           getitem d ''authority''])
                 font_medium ''black'',
               draw_text (300, y_pos + 80)
                 (fstring [Inr ''Address: Police and Border Guard Board, Tallinn, Estonia''])
                 font_medium ''black''])
              @ (let y_pos = int height - 60 in
              [rectangle [10, y_pos, int width - 10, int height - 10] None (Some ''black'') 1,
               draw_text (15, y_pos + 10) (getitem d ''mrz_line1'') font_small ''black'',
               draw_text (15, y_pos + 25) (getitem d ''mrz_line2'') font_small ''black'']))
             (image, w) of
             (Some e, s) \<Rightarrow> (Inl e, snd s)
           | (None, s) \<Rightarrow> (Inr (fst s), snd s)))"

text \<open>The \<^verbatim>\<open>__main__\<close> block of the passport script.\<close>

definition passport_main_on :: "pydict \<Rightarrow> world \<Rightarrow> exn option \<times> world" where
  "passport_main_on d w =
     (case create_passport_image_on d w of
        (Inl e, w') \<Rightarrow> (Some e, w')
      | (Inr passport_img, w') \<Rightarrow>
          (let (r, s) = run_stmts
                 [save ''passport.jpg'' ''JPEG'' 95,
                  print (Inr ''Created passport.jpg with Estonian passport data''),
                  print (Inr ([CHR 0x0A] @ ''Expected extracted data:'')),
                  print (fstring [Inr ''Full Name: '', getitem d ''surname'', Inr '', '',
                                  getitem d ''given_name'']),
                  print (fstring [Inr ''Passport Number: '', getitem d ''document_number'']),
                  print (fstring [Inr ''Nationality: Estonia'']),
                  print (fstring [Inr ''Date of Birth: 1990-10-19'']),
                  print (fstring [Inr ''Expiry Date: 2033-02-13'']),
                  print (fstring [Inr ''Issue Date: 2023-02-13''])]
                 (passport_img, w')
           in (r, snd s)))"

definition create_passport_image :: "world \<Rightarrow> image result \<times> world" where
  "create_passport_image w = create_passport_image_on passport_data w"

definition passport_main :: "world \<Rightarrow> exn option \<times> world" where
  "passport_main w = passport_main_on passport_data w"

subsection \<open>create-test-visa.py\<close>

definition visa_data :: pydict where
  "visa_data =
     [(''visa_type'', ''Tourist''),
      (''visa_category'', ''e-Visa''),
      (''visa_number'', ''900F3927P''),
      (''country'', ''India''),
      (''authority'', ''BUREAU OF IMMIGRATION INDIA''),
      (''issue_date'', ''14 MAR 2025''),
      (''expiry_date'', ''09 Mar 2026''),
      (''place_of_issue'', ''New Delhi''),
      (''purpose_of_visit'', ''Tourism''),
      (''port_of_entry'', ''IGI AIRPORT, NEW DELHI''),
      (''entries'', ''MULTIPLE''),
      (''stay_duration'', ''Each Stay not to exceed 90 days''),
      (''nationality'', ''Estonia''),
      (''passport_number'', ''KF0250087''),
      (''visa_status'', ''Active''),
      (''remarks'', ''Valid for tourism and leisure activities''),
      (''code'', ''C4'')]"

text \<open>
  \<^verbatim>\<open>create_visa_image\<close> draws on a 500 by 350 canvas and returns
  \<^verbatim>\<open>image.resize((width, 450))\<close>, a resampled copy of the canvas.
\<close>

definition create_visa_image_on :: "pydict \<Rightarrow> world \<Rightarrow> image result \<times> world" where
  "create_visa_image_on d w =
     (let width = 500; height = 350;
          image = Image_new ''RGB'' (width, height) ''white''
      in case load_fonts w ''/System/Library/Fonts/Arial.ttf'' 14 11 9 of
        (font_large, font_medium, font_small) \<Rightarrow>
          (case run_stmts
             ([rectangle [10, 10, int width - 10, 50] None (Some ''black'') 2,
               draw_text (20, 20) (Inr ''INDIAN VISA'') font_large ''black'']
              @ (let y_pos = 70 in
              [draw_text (20, y_pos) (fstring [Inr ''Visa Type: '', getitem d ''visa_type''])
                 font_medium ''black'',
               draw_text (20, y_pos + 20)
                 (fstring [Inr ''Visa Category: '', getitem d ''visa_category''])
                 font_medium ''black'',
               draw_text (20, y_pos + 40)
                 (fstring [Inr ''Visa Number: '', getitem d ''visa_number''])
                 font_medium ''black'',
               draw_text (20, y_pos + 60) (fstring [Inr ''Country: '', getitem d ''country''])
                 font_medium ''black'',
               draw_text (20, y_pos + 80) (fstring [Inr ''Authority: '', getitem d ''authority''])
                 font_medium ''black'',
               draw_text (20, y_pos + 100)
                 (fstring [Inr ''Place of Issue: '', getitem d ''place_of_issue''])
                 font_medium ''black'',
               draw_text (20, y_pos + 120)
                 (fstring [Inr ''Purpose: '', getitem d ''purpose_of_visit''])
                 font_medium ''black''])
              @ (let y_pos = 200 in
              [draw_text (20, y_pos) (fstring [Inr ''Issue Date: '', getitem d ''issue_date''])
                 font_medium ''red'',
               draw_text (20, y_pos + 20)
                 (fstring [Inr ''Expiry Date: '', getitem d ''expiry_date''])
                 font_medium ''black''])
              @ (let y_pos = 250 in
              [draw_text (20, y_pos)
                 (fstring [Inr ''Port of Entry: '', getitem d ''port_of_entry''])
                 font_medium ''black'',
               draw_text (20, y_pos + 20) (fstring [Inr ''Entries: '', getitem d ''entries''])
                 font_medium ''black'',
               draw_text (20, y_pos + 40)
                 (fstring [Inr ''Stay Duration: '', getitem d ''stay_duration''])
                 font_medium ''black'',
               draw_text (20, y_pos + 60)
                 (fstring [Inr ''Nationality: '', getitem d ''nationality''])
                 font_medium ''black'',
               draw_text (20, y_pos + 80)
                 (fstring [Inr ''Passport No: '', getitem d ''passport_number''])
                 font_medium ''black'',
               draw_text (20, y_pos + 100)
                 (fstring [Inr ''Status: '', getitem d ''visa_status''])
                 font_medium ''black'',
               draw_text (20, y_pos + 120) (fstring [Inr ''Remarks: '', getitem d ''remarks''])
                 font_medium ''black''])
              @ [rectangle [5, 5, int width - 5, int height - 5] None (Some ''blue'') 3])
             (image, w) of
             (Some e, s) \<Rightarrow> (Inl e, snd s)
           | (None, s) \<Rightarrow> (Inr (resize (width, 450) (fst s)), snd s)))"

text \<open>The \<^verbatim>\<open>__main__\<close> block of the visa script.\<close>

definition visa_main_on :: "pydict \<Rightarrow> world \<Rightarrow> exn option \<times> world" where
  "visa_main_on d w =
     (case create_visa_image_on d w of
        (Inl e, w') \<Rightarrow> (Some e, w')
      | (Inr visa_img, w') \<Rightarrow>
          (let (r, s) = run_stmts
                 [save ''visa.jpg'' ''JPEG'' 95,
                  print (Inr ''Created visa.jpg with Indian visa data''),
                  print (Inr ([CHR 0x0A] @ ''Expected extracted data (FRRO C-Form Ready):'')),
                  print (fstring [Inr ''Visa Type: '', getitem d ''visa_type'']),
                  print (fstring [Inr ''Visa Category: '', getitem d ''visa_category'']),
                  print (fstring [Inr ''Visa Number: '', getitem d ''visa_number'']),
                  print (fstring [Inr ''Country: '', getitem d ''country'']),
                  print (fstring [Inr ''Place of Issue: '', getitem d ''place_of_issue'']),
                  print (fstring [Inr ''Purpose of Visit: '', getitem d ''purpose_of_visit'']),
                  print (fstring [Inr ''Issue Date: 2025-03-14'']),
                  print (fstring [Inr ''Expiry Date: 2026-03-09'']),
                  print (fstring [Inr ''Port of Entry: '', getitem d ''port_of_entry'']),
                  print (fstring [Inr ''Entries: '', getitem d ''entries'']),
                  print (fstring [Inr ''Duration of Stay: '', getitem d ''stay_duration'']),
                  print (fstring [Inr ''Nationality: '', getitem d ''nationality'']),
                  print (fstring [Inr ''Passport Number: '', getitem d ''passport_number'']),
                  print (fstring [Inr ''Visa Status: '', getitem d ''visa_status'']),
                  print (fstring [Inr ''Remarks: '', getitem d ''remarks''])]
                 (visa_img, w')
           in (r, snd s)))"

definition create_visa_image :: "world \<Rightarrow> image result \<times> world" where
  "create_visa_image w = create_visa_image_on visa_data w"

definition visa_main :: "world \<Rightarrow> exn option \<times> world" where
  "visa_main w = visa_main_on visa_data w"

subsection \<open>Observing a run\<close>

text \<open>
  What a run leaves behind is read off the world: the image inside a saved file, the lines
  printed since the run started, the strings and fonts of the text operations of an image.
  A line \<^verbatim>\<open>Label: value\<close> carries the value that follows its label; \<open>value_of l ls\<close>
  is the value of the first line of \<open>ls\<close> that starts with the label \<open>l\<close>.
\<close>

definition saved_image :: "world \<Rightarrow> string \<Rightarrow> image option" where
  "saved_image w path = (case files w path of None \<Rightarrow> None | Some (Encoded _ _ img) \<Rightarrow> Some img)"

definition printed :: "world \<Rightarrow> world \<Rightarrow> string list" where
  "printed w w' = drop (length (console w)) (console w')"

text \<open>
  The library lays a text out to the right of and below the position given: a text
  operation whose position is not on the canvas leaves no pixel. \<open>drawn_texts img\<close> are
  the strings of the text operations positioned on the canvas, in the order drawn. The
  canvas of an operation is the picture as it was when the operation was applied: the
  operations are walked from the last one back, and a resampling gives way to the size
  the picture had before it.
\<close>

definition on_canvas :: "nat \<times> nat \<Rightarrow> int \<times> int \<Rightarrow> bool" where
  "on_canvas sz p = (0 \<le> fst p \<and> fst p < int (fst sz) \<and> 0 \<le> snd p \<and> snd p < int (snd sz))"

fun texts_on :: "nat \<times> nat \<Rightarrow> paint_op list \<Rightarrow> string list" where
  "texts_on sz [] = []"
| "texts_on sz (Resample old new # ops) = texts_on old ops"
| "texts_on sz (Text xy t f c # ops) = (if on_canvas sz xy then [t] else []) @ texts_on sz ops"
| "texts_on sz (Rectangle xy fl ol wd # ops) = texts_on sz ops"

definition drawn_texts :: "image \<Rightarrow> string list" where
  "drawn_texts img = rev (texts_on (img_size img) (rev (img_ops img)))"

definition text_fonts :: "image \<Rightarrow> font list" where
  "text_fonts img =
     concat (map (\<lambda>p. case p of Text _ _ f _ \<Rightarrow> [f] | _ \<Rightarrow> []) (img_ops img))"

fun starts_with :: "string \<Rightarrow> string \<Rightarrow> bool" where
  "starts_with [] s = True"
| "starts_with (c # cs) [] = False"
| "starts_with (c # cs) (x # xs) = (c = x \<and> starts_with cs xs)"

fun value_of :: "string \<Rightarrow> string list \<Rightarrow> string option" where
  "value_of l [] = None"
| "value_of l (x # xs) = (if starts_with l x then Some (drop (length l) x) else value_of l xs)"

text \<open>
  A field of the report agrees with the record and the drawing when the console line under
  its label and the text line drawn under its label both carry the value the record holds
  for its key. The tables pair the label of each line of the
  \<^verbatim>\<open>Expected extracted data\<close> section that is printed from a record lookup with the
  label of the text line drawn from the same key.
\<close>

definition agrees :: "pydict \<Rightarrow> image \<Rightarrow> string list \<Rightarrow> string \<times> string \<times> string \<Rightarrow> bool" where
  "agrees d img ls f =
     (case f of (printed_label, drawn_label, k) \<Rightarrow>
        (case map_of d k of
           None \<Rightarrow> False
         | Some v \<Rightarrow> value_of printed_label ls = Some v
                    \<and> value_of drawn_label (drawn_texts img) = Some v))"

definition aadhaar_fields :: "(string \<times> string \<times> string) list" where
  "aadhaar_fields =
     [(''Full Name: '', ''Name: '', ''name''),
      (''Aadhaar Number: '', ''Aadhaar No: '', ''aadhaar_number''),
      (''Date of Birth: '', ''Date of Birth: '', ''date_of_birth''),
      (''Address: '', ''Address: '', ''address''),
      (''Gender: '', ''Gender: '', ''gender'')]"

definition pan_fields :: "(string \<times> string \<times> string) list" where
  "pan_fields =
     [(''Full Name: '', ''Name: '', ''name''),
      (''PAN Number: '', ''PAN: '', ''pan_number''),
      (''Father's Name: '', ''Father's Name: '', ''father_name''),
      (''Date of Birth: '', ''Date of Birth: '', ''date_of_birth'')]"

definition visa_fields :: "(string \<times> string \<times> string) list" where
  "visa_fields =
     [(''Visa Type: '', ''Visa Type: '', ''visa_type''),
      (''Visa Category: '', ''Visa Category: '', ''visa_category''),
      (''Visa Number: '', ''Visa Number: '', ''visa_number''),
      (''Country: '', ''Country: '', ''country''),
      (''Place of Issue: '', ''Place of Issue: '', ''place_of_issue''),
      (''Purpose of Visit: '', ''Purpose: '', ''purpose_of_visit''),
      (''Port of Entry: '', ''Port of Entry: '', ''port_of_entry''),
      (''Entries: '', ''Entries: '', ''entries''),
      (''Duration of Stay: '', ''Stay Duration: '', ''stay_duration''),
      (''Nationality: '', ''Nationality: '', ''nationality''),
      (''Passport Number: '', ''Passport No: '', ''passport_number'')]"

text \<open>
  \<open>has_keys d ks\<close>: the record \<open>d\<close> holds every key of \<open>ks\<close>.
  \<open>font_load_fails w l m s\<close>: on the host \<open>w\<close> at least one of the three
  \<^verbatim>\<open>ImageFont.truetype\<close> calls of a script with the sizes \<open>l\<close>, \<open>m\<close>, \<open>s\<close> raises.
\<close>

definition has_keys :: "pydict \<Rightarrow> string list \<Rightarrow> bool" where
  "has_keys d ks = list_all (\<lambda>k. map_of d k \<noteq> None) ks"

definition font_load_fails :: "world \<Rightarrow> nat \<Rightarrow> nat \<Rightarrow> nat \<Rightarrow> bool" where
  "font_load_fails w l m s =
     (isl (truetype w ''/System/Library/Fonts/Arial.ttf'' l)
      \<or> isl (truetype w ''/System/Library/Fonts/Arial.ttf'' m)
      \<or> isl (truetype w ''/System/Library/Fonts/Arial.ttf'' s))"

subsection \<open>Pixels\<close>

text \<open>
  What the operations of an image leave on its pixels. The library paints each operation
  into the pixel buffer when the call is made, so an operation covers what the operations
  before it left. Three things are the library's own and are parameters here: the mask of
  a string in a font (how much of the pixel at an offset from the position the glyphs
  cover, from 0 to 255), the resampling filter, and the encoder that turns format, quality,
  mode, size and pixels into the bytes stored.

  A colour is the name given in the source, or a mix: \<open>Blend a c u\<close> is the ink \<open>c\<close>
  at coverage \<open>a\<close> (the edge of a glyph) over the colour \<open>u\<close> that was there.
\<close>

datatype colour = Named string | Blend nat colour colour

record library =
  glyph_mask :: "font \<Rightarrow> string \<Rightarrow> int \<times> int \<Rightarrow> nat"
  resample :: "nat \<times> nat \<Rightarrow> nat \<times> nat \<Rightarrow> (int \<times> int \<Rightarrow> colour) \<Rightarrow> int \<times> int \<Rightarrow> colour"
  encoder :: "string \<Rightarrow> nat \<Rightarrow> string \<Rightarrow> nat \<times> nat \<Rightarrow> (int \<times> int \<Rightarrow> colour) \<Rightarrow> nat list"

definition over :: "nat \<Rightarrow> colour \<Rightarrow> colour \<Rightarrow> colour" where
  "over a c u = (if a = 0 then u else if 255 \<le> a then c else Blend a c u)"

text \<open>
  \<^verbatim>\<open>draw.rectangle([x0, y0, x1, y1], fill, outline, width)\<close> fills the box, both corners
  included, and then draws the outline as a ring \<open>width\<close> pixels wide along the inside
  of the box.
\<close>

definition in_box :: "int list \<Rightarrow> int \<times> int \<Rightarrow> bool" where
  "in_box xy p =
     (case xy of
        [x0, y0, x1, y1] \<Rightarrow> x0 \<le> fst p \<and> fst p \<le> x1 \<and> y0 \<le> snd p \<and> snd p \<le> y1
      | _ \<Rightarrow> False)"

definition on_ring :: "int list \<Rightarrow> nat \<Rightarrow> int \<times> int \<Rightarrow> bool" where
  "on_ring xy wd p =
     (case xy of
        [x0, y0, x1, y1] \<Rightarrow>
          in_box xy p \<and>
          (fst p < x0 + int wd \<or> x1 - int wd < fst p \<or> snd p < y0 + int wd \<or> y1 - int wd < snd p)
      | _ \<Rightarrow> False)"

fun paint :: "library \<Rightarrow> paint_op \<Rightarrow> int \<times> int \<Rightarrow> colour \<Rightarrow> colour" where
  "paint L (Rectangle xy fill outline wd) p u =
     (case (if on_ring xy wd p then outline else None) of
        Some c \<Rightarrow> Named c
      | None \<Rightarrow> (case (if in_box xy p then fill else None) of Some c \<Rightarrow> Named c | None \<Rightarrow> u))"
| "paint L (Text xy t f c) p u =
     (if fst xy \<le> fst p \<and> snd xy \<le> snd p
      then over (glyph_mask L f t (fst p - fst xy, snd p - snd xy)) (Named c) u
      else u)"
| "paint L (Resample old new) p u = u"

text \<open>
  \<open>render L bg sz ops p\<close> is the colour of the pixel \<open>p\<close> after the operations \<open>ops\<close>,
  given last operation first, on a picture that now has the size \<open>sz\<close> and started in the
  colour \<open>bg\<close>. A drawing operation touches the pixels of the canvas only.
\<close>

fun render :: "library \<Rightarrow> colour \<Rightarrow> nat \<times> nat \<Rightarrow> paint_op list \<Rightarrow> int \<times> int \<Rightarrow> colour" where
  "render L bg sz [] p = bg"
| "render L bg sz (Resample old new # ops) p = resample L old new (render L bg old ops) p"
| "render L bg sz (Rectangle xy fill outline wd # ops) p =
     (if on_canvas sz p
      then paint L (Rectangle xy fill outline wd) p (render L bg sz ops p)
      else render L bg sz ops p)"
| "render L bg sz (Text xy t f c # ops) p =
     (if on_canvas sz p
      then paint L (Text xy t f c) p (render L bg sz ops p)
      else render L bg sz ops p)"

definition pixels :: "library \<Rightarrow> image \<Rightarrow> int \<times> int \<Rightarrow> colour" where
  "pixels L img = render L (Named (img_colour img)) (img_size img) (rev (img_ops img))"

fun file_bytes :: "library \<Rightarrow> disk_file \<Rightarrow> nat list" where
  "file_bytes L (Encoded fmt q img) = encoder L fmt q (img_mode img) (img_size img) (pixels L img)"

subsection \<open>The scripts as processes\<close>






text \<open>
  The interpreter runs the script and then shuts down, flushing the buffer of standard
  output. The exit status follows the interpreter's main function: 1 when an exception
  reached the top level and 0 otherwise; replaced by 120 when the flush at shutdown fails;
  and when the exception is \<^verbatim>\<open>KeyboardInterrupt\<close> the process ends itself with the
  interrupt signal whatever came before, which a shell reports as 130. The flush fails when
  the run has printed something and standard output cannot take it; an empty buffer is
  flushed without a write.
\<close>

definition exit_status :: "exn option \<Rightarrow> bool \<Rightarrow> nat" where
  "exit_status r flush_failed =
     (case r of
        Some KeyboardInterrupt \<Rightarrow> 130
      | Some _ \<Rightarrow> (if flush_failed then 120 else 1)
      | None \<Rightarrow> (if flush_failed then 120 else 0))"

definition python3 :: "(world \<Rightarrow> exn option \<times> world) \<Rightarrow> world \<Rightarrow> nat \<times> world" where
  "python3 script w =
     (case script w of
        (r, w') \<Rightarrow>
          (exit_status r (printed w w' \<noteq> [] \<and> stdout_error w' \<noteq> None),
           w'))"

subsection \<open>Sample hosts\<close>

text \<open>
  Three hosts to run the scripts on: one without the font file the scripts ask for (any
  host that is not a Mac) and a writable working directory; one where the font file loads;
  one whose working directory is read-only, with another command line, environment, disk
  and console.
\<close>

definition host_plain :: world where
  "host_plain =
     \<lparr>argv = [''script.py''], environ = [], import_error = None,
      truetype = (\<lambda>path sz. Inl (OSError ''cannot open resource'')),
      write_error = (\<lambda>path. None), files = Map.empty, console = [],
      stdout_error = None\<rparr>"

definition host_arial :: world where
  "host_arial =
     \<lparr>argv = [''script.py'', ''--out'', ''x.png''], environ = [(''HOME'', ''/Users/dev'')],
      import_error = None, truetype = (\<lambda>path sz. Inr (FreeTypeFont path sz)),
      write_error = (\<lambda>path. None), files = Map.empty, console = [''$ python3 script.py''],
      stdout_error = None\<rparr>"

definition host_read_only :: world where
  "host_read_only =
     \<lparr>argv = [''script.py''], environ = [], import_error = None,
      truetype = (\<lambda>path sz. Inl (OSError ''cannot open resource'')),
      write_error = (\<lambda>path. Some ''Permission denied''), files = Map.empty, console = [],
      stdout_error = None\<rparr>"

text \<open>
  A fourth host, where the font file loads at most sizes but the calls for the sizes 12 and
  9 are interrupted from the keyboard: the exception is not a missing file, and it is raised
  after the first font of a script has loaded.
\<close>

definition host_interrupted :: world where
  "host_interrupted =
     \<lparr>argv = [''script.py''], environ = [], import_error = None,
      truetype = (\<lambda>path sz. if sz = 12 \<or> sz = 9 then Inl KeyboardInterrupt
                                else Inr (FreeTypeFont path sz)),
      write_error = (\<lambda>path. None), files = Map.empty, console = [],
      stdout_error = None\<rparr>"



text \<open>
  A sample library: every character is a solid block 6 pixels wide and 11 high,
  resampling takes the nearest pixel, and the encoder writes quality and size followed by
  one byte for each pixel of the first row (0 where the pixel is \<^verbatim>\<open>white\<close>).
\<close>

definition block_library :: library where
  "block_library =
     \<lparr>glyph_mask = (\<lambda>f t p. if fst p < 6 * int (length t) \<and> snd p < 11 then 255 else 0),
      resample = (\<lambda>old new r p.
         r (fst p * int (fst old) div int (fst new), snd p * int (snd old) div int (snd new))),
      encoder = (\<lambda>fmt q m sz r.
         [q, fst sz, snd sz]
         @ map (\<lambda>x. if r (int x, 0) = Named ''white'' then 0 else 1) [0 ..< fst sz])\<rparr>"

subsection \<open>The images the scripts draw\<close>

text \<open>
  The image each script ends up with, as a function of the three fonts it loaded. The
  lemmas of the next section prove that the scripts compute exactly these.
\<close>

definition aadhaar_canvas :: "font \<times> font \<times> font \<Rightarrow> image" where
 "aadhaar_canvas fs = (case fs of (fl, fm, fs) \<Rightarrow> 
            \<lparr>img_mode = ''RGB'', img_size = (600, 400), img_colour = ''white'',
             img_ops = [Rectangle [0, 0, 600, 60] (Some ''#FF6B35'') None 1,
               Text (20, 20) ''Government of India'' fl ''white'',
               Text (20, 45) ''Aadhaar'' fm ''white'',
               Text (20, 80) ''Name: KATRINA UUENI'' fm ''black'',
               Text (20, 105) ''Aadhaar No: 1234 5678 9012'' fm ''black'',
               Text (20, 130) ''Date of Birth: 1990-10-19'' fm ''black'',
               Text (20, 155) ''Gender: Female'' fm ''black'',
               Text (20, 180) ''Father's Name: JOHN UUENI'' fm ''black'',
               Text (20, 205) ''Address: Tallinn, Estonia'' fm ''black'',
               Rectangle [400, 80, 580, 260] None (Some ''black'') 2,
               Text (420, 170) ''QR Code'' fs ''black'',
               Text (20, 370) ''This is a test Aadhaar card for development purposes'' fs ''gray'']\<rparr>)"

definition pan_canvas :: "font \<times> font \<times> font \<Rightarrow> image" where
 "pan_canvas fs = (case fs of (fl, fm, fs) \<Rightarrow> 
            \<lparr>img_mode = ''RGB'', img_size = (600, 400), img_colour = ''#D2B48C'',
             img_ops = [Rectangle [0, 0, 600, 60] (Some ''#8B4513'') None 1,
               Text (20, 20) ''INCOME TAX DEPARTMENT'' fl ''white'',
               Text (20, 45) ''GOVT. OF INDIA'' fm ''white'',
               Text (20, 80) ''Permanent Account Number Card'' fm ''black'',
               Text (20, 110) ''Name: KATRINA UUENI'' fm ''black'',
               Text (20, 135) ''Father's Name: JOHN UUENI'' fm ''black'',
               Text (20, 160) ''Date of Birth: 1990-10-19'' fm ''black'',
               Text (20, 185) ''PAN: ABCDE1234F'' fm ''black'',
               Rectangle [400, 150, 580, 200] None (Some ''black'') 1,
               Text (420, 175) ''Signature'' fs ''black'',
               Text (20, 370) ''This is a test PAN card for development purposes'' fs ''gray'']\<rparr>)"

definition passport_canvas :: "font \<times> font \<times> font \<Rightarrow> image" where
 "passport_canvas fs = (case fs of (fl, fm, fs) \<Rightarrow> 
            \<lparr>img_mode = ''RGB'', img_size = (600, 400), img_colour = ''white'',
             img_ops = [Rectangle [10, 10, 590, 50] None (Some ''black'') 2,
               Text (20, 20) ''ESTONIAN PASSPORT'' fl ''black'',
               Text (20, 70) ''Liik/Type: P'' fm ''black'',
               Text (20, 90) ''Riigi kood/Country code: EST'' fm ''black'',
               Text (20, 120) ''1. Perekonnanimi / Surname: UUENI'' fm ''black'',
               Text (20, 140) ''2. Eesnimi / Given name: KATRINA'' fm ''black'',
               Text (20, 160) ''3. Isikukood / Personal code: 49010195221'' fm ''black'',
               Text (20, 180) ''4. Kodakondsus / Citizenship: EST'' fm ''black'',
               Text (20, 200) (''5. S'' @ [CHR 0xFC] @ ''nniaeg / Date of birth: 19.10.1990'') fm ''black'',
               Text (20, 220) ''6. Sugu / Sex: N/F'' fm ''black'',
               Text (20, 240) (''7. S'' @ [CHR 0xFC] @ ''nnikoht / Place of birth: Tallinn, Estonia'') fm ''black'',
               Text (20, 260) ''8. Aadress / Address: Tallinn, Estonia'' fm ''black'',
               Text (300, 260) ''Dokumendi number: KF0250087'' fm ''black'',
               Text (300, 280) (''8. V'' @ [CHR 0xE4] @ ''lja antud: 13.02.2023'') fm ''black'',
               Text (300, 300) ''9. Kehtiv kuni: 13.02.2033'' fm ''black'',
               Text (300, 320) (''11. V'' @ [CHR 0xE4] @ ''ljaandja: PPA/PBGB'') fm ''black'',
               Text (300, 340) ''Address: Police and Border Guard Board, Tallinn, Estonia'' fm ''black'',
               Rectangle [10, 340, 590, 390] None (Some ''black'') 1,
               Text (15, 350) ''P<ESTUUENI<<KATRINA<<<<<<<<<<<<'' fs ''black'',
               Text (15, 365) ''KF02500875EST9010196F330213049010195221<<<08'' fs ''black'']\<rparr>)"

definition visa_canvas :: "font \<times> font \<times> font \<Rightarrow> image" where
 "visa_canvas fs = (case fs of (fl, fm, fs) \<Rightarrow> 
            \<lparr>img_mode = ''RGB'', img_size = (500, 350), img_colour = ''white'',
             img_ops = [Rectangle [10, 10, 490, 50] None (Some ''black'') 2,
               Text (20, 20) ''INDIAN VISA'' fl ''black'',
               Text (20, 70) ''Visa Type: Tourist'' fm ''black'',
               Text (20, 90) ''Visa Category: e-Visa'' fm ''black'',
               Text (20, 110) ''Visa Number: 900F3927P'' fm ''black'',
               Text (20, 130) ''Country: India'' fm ''black'',
               Text (20, 150) ''Authority: BUREAU OF IMMIGRATION INDIA'' fm ''black'',
               Text (20, 170) ''Place of Issue: New Delhi'' fm ''black'',
               Text (20, 190) ''Purpose: Tourism'' fm ''black'',
               Text (20, 200) ''Issue Date: 14 MAR 2025'' fm ''red'',
               Text (20, 220) ''Expiry Date: 09 Mar 2026'' fm ''black'',
               Text (20, 250) ''Port of Entry: IGI AIRPORT, NEW DELHI'' fm ''black'',
               Text (20, 270) ''Entries: MULTIPLE'' fm ''black'',
               Text (20, 290) ''Stay Duration: Each Stay not to exceed 90 days'' fm ''black'',
               Text (20, 310) ''Nationality: Estonia'' fm ''black'',
               Text (20, 330) ''Passport No: KF0250087'' fm ''black'',
               Text (20, 350) ''Status: Active'' fm ''black'',
               Text (20, 370) ''Remarks: Valid for tourism and leisure activities'' fm ''black'',
               Rectangle [5, 5, 495, 345] None (Some ''blue'') 3]\<rparr>)"

section \<open>What a run computes\<close>

text \<open>
  Each script is evaluated once and for all, for an arbitrary host: its outcome depends on
  the host only through the fonts that load and through whether the output path can be
  written.
\<close>

lemmas stmt_defs = rectangle_def draw_text_def save_def print_def getitem_def Image_new_def

lemma aadhaar_closed:
  "create_test_aadhaar w =
      (case write_error w ''aadhaar.jpg'' of
         Some msg \<Rightarrow> (Some (OSError msg), w)
       | None \<Rightarrow> (None, w\<lparr>files := (files w)(''aadhaar.jpg'' \<mapsto> Encoded ''JPEG'' 95
            (aadhaar_canvas (load_fonts w ''/System/Library/Fonts/Arial.ttf'' 24 16 12))),
           console := console w @
             [''Created aadhaar.jpg with Indian Aadhaar data'', '''', ''Expected extracted data:'',
              ''Full Name: KATRINA UUENI'', ''Aadhaar Number: 1234 5678 9012'',
              ''Date of Birth: 1990-10-19'', ''Address: Tallinn, Estonia'', ''Gender: Female'']\<rparr>))"
  by (simp add: create_test_aadhaar_def create_test_aadhaar_on_def aadhaar_data_def stmt_defs aadhaar_canvas_def
      Let_def split: prod.splits option.splits)

lemma pan_closed:
  "create_test_pan w =
      (case write_error w ''pan.jpg'' of
         Some msg \<Rightarrow> (Some (OSError msg), w)
       | None \<Rightarrow> (None, w\<lparr>files := (files w)(''pan.jpg'' \<mapsto> Encoded ''JPEG'' 95
            (pan_canvas (load_fonts w ''/System/Library/Fonts/Arial.ttf'' 24 16 12))),
           console := console w @
             [''Created pan.jpg with Indian PAN card data'', '''', ''Expected extracted data:'',
              ''Full Name: KATRINA UUENI'', ''PAN Number: ABCDE1234F'',
              ''Father's Name: JOHN UUENI'', ''Date of Birth: 1990-10-19'']\<rparr>))"
  by (simp add: create_test_pan_def create_test_pan_on_def pan_data_def stmt_defs pan_canvas_def
      Let_def split: prod.splits option.splits)

lemma passport_image_closed:
  "create_passport_image w =
     (Inr (passport_canvas (load_fonts w ''/System/Library/Fonts/Arial.ttf'' 16 12 10)), w)"
  by (simp add: create_passport_image_def create_passport_image_on_def passport_data_def stmt_defs passport_canvas_def
      Let_def split: prod.splits option.splits)

lemma passport_main_closed:
  "passport_main w =
      (case write_error w ''passport.jpg'' of
         Some msg \<Rightarrow> (Some (OSError msg), w)
       | None \<Rightarrow> (None, w\<lparr>files := (files w)(''passport.jpg'' \<mapsto> Encoded ''JPEG'' 95
            (passport_canvas (load_fonts w ''/System/Library/Fonts/Arial.ttf'' 16 12 10))),
           console := console w @
             [''Created passport.jpg with Estonian passport data'',
              [CHR 0x0A] @ ''Expected extracted data:'',
              ''Full Name: UUENI, KATRINA'', ''Passport Number: KF0250087'',
              ''Nationality: Estonia'', ''Date of Birth: 1990-10-19'',
              ''Expiry Date: 2033-02-13'', ''Issue Date: 2023-02-13'']\<rparr>))"
  using passport_image_closed [of w]
  by (simp add: passport_main_def passport_main_on_def create_passport_image_def
        passport_data_def save_def print_def getitem_def Let_def split: option.splits)

lemma visa_image_closed:
  "create_visa_image w =
     (Inr (resize (500, 450) (visa_canvas (load_fonts w ''/System/Library/Fonts/Arial.ttf'' 14 11 9))), w)"
  by (simp add: create_visa_image_def create_visa_image_on_def visa_data_def stmt_defs visa_canvas_def
      resize_def Let_def split: prod.splits option.splits)

lemma visa_main_closed:
  "visa_main w =
      (case write_error w ''visa.jpg'' of
         Some msg \<Rightarrow> (Some (OSError msg), w)
       | None \<Rightarrow> (None, w\<lparr>files := (files w)(''visa.jpg'' \<mapsto> Encoded ''JPEG'' 95
            (resize (500, 450) (visa_canvas (load_fonts w ''/System/Library/Fonts/Arial.ttf'' 14 11 9)))),
           console := console w @
             [''Created visa.jpg with Indian visa data'',
              [CHR 0x0A] @ ''Expected extracted data (FRRO C-Form Ready):'',
              ''Visa Type: Tourist'', ''Visa Category: e-Visa'', ''Visa Number: 900F3927P'',
              ''Country: India'', ''Place of Issue: New Delhi'', ''Purpose of Visit: Tourism'',
              ''Issue Date: 2025-03-14'', ''Expiry Date: 2026-03-09'',
              ''Port of Entry: IGI AIRPORT, NEW DELHI'', ''Entries: MULTIPLE'',
              ''Duration of Stay: Each Stay not to exceed 90 days'', ''Nationality: Estonia'',
              ''Passport Number: KF0250087'', ''Visa Status: Active'',
              ''Remarks: Valid for tourism and leisure activities'']\<rparr>))"
  using visa_image_closed [of w]
  by (simp add: visa_main_def visa_main_on_def create_visa_image_def
        visa_data_def save_def print_def getitem_def Let_def split: option.splits)

lemma load_fonts_fallback:
  "font_load_fails w l m s \<Longrightarrow>
   load_fonts w ''/System/Library/Fonts/Arial.ttf'' l m s = (DefaultFont, DefaultFont, DefaultFont)"
  by (auto simp: font_load_fails_def load_fonts_def load_default_def isl_def split: sum.splits)

lemma load_fonts_same_resolution:
  "truetype w1 = truetype w2 \<Longrightarrow> load_fonts w1 p l m s = load_fonts w2 p l m s"
  by (auto simp: load_fonts_def split: sum.splits)


section \<open>The claims\<close>

text \<open>
  Claim C2. Running the Aadhaar generator on a host where \<^verbatim>\<open>aadhaar.jpg\<close> can be
  written prints the full-name field \<^verbatim>\<open>KATRINA UUENI\<close> and the ID-number field
  \<^verbatim>\<open>1234 5678 9012\<close>, and the saved image holds these strings as the name line at
  offset (20, 80) and the Aadhaar-number line at offset (20, 105), the fourth and fifth
  drawing operations.
\<close>

theorem aadhaar_scenario:
  "write_error w ''aadhaar.jpg'' = None \<Longrightarrow>
   value_of ''Full Name: '' (printed w (snd (create_test_aadhaar w))) = Some ''KATRINA UUENI'' \<and>
   value_of ''Aadhaar Number: '' (printed w (snd (create_test_aadhaar w)))
     = Some ''1234 5678 9012'' \<and>
   (\<exists>img fnt. saved_image (snd (create_test_aadhaar w)) ''aadhaar.jpg'' = Some img \<and>
      img_ops img ! 3 = Text (20, 80) ''Name: KATRINA UUENI'' fnt ''black'' \<and>
      img_ops img ! 4 = Text (20, 105) ''Aadhaar No: 1234 5678 9012'' fnt ''black'')"
  by (simp add: aadhaar_closed printed_def saved_image_def aadhaar_canvas_def
      split: prod.splits)

theorem aadhaar_scenario_witness:
  "write_error host_plain ''aadhaar.jpg'' = None \<and>
   value_of ''Full Name: '' (printed host_plain (snd (create_test_aadhaar host_plain)))
     = Some ''KATRINA UUENI'' \<and>
   value_of ''Aadhaar Number: '' (printed host_plain (snd (create_test_aadhaar host_plain)))
     = Some ''1234 5678 9012''"
  using aadhaar_scenario [of host_plain] by (simp add: host_plain_def)

text \<open>
  Claim C3. In every script, when loading a TrueType font fails (at any of the three sizes,
  with any exception), the outcome of the run is decided by the write alone: no exception
  leaves the script unless saving raises, and when the path can be written the file holds
  the complete drawing, every text in the built-in font.
\<close>

theorem font_fallback_completes:
  "(font_load_fails w 24 16 12 \<longrightarrow>
      fst (create_test_aadhaar w) = map_option OSError (write_error w ''aadhaar.jpg'') \<and>
      (write_error w ''aadhaar.jpg'' = None \<longrightarrow>
         saved_image (snd (create_test_aadhaar w)) ''aadhaar.jpg''
           = Some (aadhaar_canvas (DefaultFont, DefaultFont, DefaultFont))) \<and>
      fst (create_test_pan w) = map_option OSError (write_error w ''pan.jpg'') \<and>
      (write_error w ''pan.jpg'' = None \<longrightarrow>
         saved_image (snd (create_test_pan w)) ''pan.jpg''
           = Some (pan_canvas (DefaultFont, DefaultFont, DefaultFont)))) \<and>
   (font_load_fails w 16 12 10 \<longrightarrow>
      fst (passport_main w) = map_option OSError (write_error w ''passport.jpg'') \<and>
      (write_error w ''passport.jpg'' = None \<longrightarrow>
         saved_image (snd (passport_main w)) ''passport.jpg''
           = Some (passport_canvas (DefaultFont, DefaultFont, DefaultFont)))) \<and>
   (font_load_fails w 14 11 9 \<longrightarrow>
      fst (visa_main w) = map_option OSError (write_error w ''visa.jpg'') \<and>
      (write_error w ''visa.jpg'' = None \<longrightarrow>
         saved_image (snd (visa_main w)) ''visa.jpg''
           = Some (resize (500, 450) (visa_canvas (DefaultFont, DefaultFont, DefaultFont)))))"
  by (auto simp: aadhaar_closed pan_closed passport_main_closed visa_main_closed
      load_fonts_fallback saved_image_def split: option.splits)

theorem font_fallback_completes_witness:
  "font_load_fails host_plain 24 16 12 \<and> font_load_fails host_plain 16 12 10 \<and>
   font_load_fails host_plain 14 11 9 \<and>
   write_error host_plain ''aadhaar.jpg'' = None \<and> write_error host_plain ''pan.jpg'' = None \<and>
   write_error host_plain ''passport.jpg'' = None \<and> write_error host_plain ''visa.jpg'' = None \<and>
   fst (create_test_aadhaar host_plain) = None \<and> fst (create_test_pan host_plain) = None \<and>
   fst (passport_main host_plain) = None \<and> fst (visa_main host_plain) = None \<and>
   saved_image (snd (create_test_aadhaar host_plain)) ''aadhaar.jpg''
     = Some (aadhaar_canvas (DefaultFont, DefaultFont, DefaultFont)) \<and>
   saved_image (snd (create_test_pan host_plain)) ''pan.jpg''
     = Some (pan_canvas (DefaultFont, DefaultFont, DefaultFont)) \<and>
   saved_image (snd (passport_main host_plain)) ''passport.jpg''
     = Some (passport_canvas (DefaultFont, DefaultFont, DefaultFont)) \<and>
   saved_image (snd (visa_main host_plain)) ''visa.jpg''
     = Some (resize (500, 450) (visa_canvas (DefaultFont, DefaultFont, DefaultFont)))"
  using font_fallback_completes [of host_plain]
  by (simp add: host_plain_def font_load_fails_def)

text \<open>
  Claim C4, as stated, fails for the visa generator: it allocates a 500 by 350 canvas, but
  \<^verbatim>\<open>create_visa_image\<close> returns \<^verbatim>\<open>image.resize((width, 450))\<close>, so the
  file written holds a 500 by 450 image.
\<close>

theorem visa_dimensions_counterexample:
  "map_option img_size (saved_image (snd (visa_main host_plain)) ''visa.jpg'') = Some (500, 450)
   \<and> map_option img_size (saved_image (snd (visa_main host_plain)) ''visa.jpg'')
       \<noteq> Some (500, 350)"
  by (simp add: visa_main_closed saved_image_def host_plain_def resize_def)

text \<open>
  Claim C4, amended. The files of the Aadhaar, PAN and passport generators hold a 600 by 400
  image, the size of the canvas allocated. The visa generator allocates a 500 by 350
  canvas and writes the 500 by 450 image that the resize call returns.
\<close>

theorem written_dimensions:
  "(write_error w ''aadhaar.jpg'' = None \<longrightarrow>
      map_option img_size (saved_image (snd (create_test_aadhaar w)) ''aadhaar.jpg'')
        = Some (600, 400)) \<and>
   (write_error w ''pan.jpg'' = None \<longrightarrow>
      map_option img_size (saved_image (snd (create_test_pan w)) ''pan.jpg'')
        = Some (600, 400)) \<and>
   (write_error w ''passport.jpg'' = None \<longrightarrow>
      map_option img_size (saved_image (snd (passport_main w)) ''passport.jpg'')
        = Some (600, 400)) \<and>
   (write_error w ''visa.jpg'' = None \<longrightarrow>
      map_option img_size (saved_image (snd (visa_main w)) ''visa.jpg'') = Some (500, 450)) \<and>
   fst (create_visa_image w)
     = Inr (resize (500, 450)
         (visa_canvas (load_fonts w ''/System/Library/Fonts/Arial.ttf'' 14 11 9))) \<and>
   img_size (visa_canvas (load_fonts w ''/System/Library/Fonts/Arial.ttf'' 14 11 9)) = (500, 350)"
  by (simp add: aadhaar_closed pan_closed passport_main_closed visa_main_closed
      visa_image_closed saved_image_def resize_def aadhaar_canvas_def pan_canvas_def
      passport_canvas_def visa_canvas_def split: prod.splits)

theorem written_dimensions_witness:
  "write_error host_arial ''aadhaar.jpg'' = None \<and> write_error host_arial ''pan.jpg'' = None \<and>
   write_error host_arial ''passport.jpg'' = None \<and> write_error host_arial ''visa.jpg'' = None \<and>
   map_option img_size (saved_image (snd (create_test_aadhaar host_arial)) ''aadhaar.jpg'')
     = Some (600, 400) \<and>
   map_option img_size (saved_image (snd (create_test_pan host_arial)) ''pan.jpg'')
     = Some (600, 400) \<and>
   map_option img_size (saved_image (snd (passport_main host_arial)) ''passport.jpg'')
     = Some (600, 400) \<and>
   map_option img_size (saved_image (snd (visa_main host_arial)) ''visa.jpg'') = Some (500, 450)"
  using written_dimensions [of host_arial] by (simp add: host_arial_def)

text \<open>
  Claim C8. A run changes the files on disk at one name at most, the fixed name of the
  script, and what it stores there is a JPEG encoding at quality 95. When the path cannot
  be written the exception leaves the script and the disk is unchanged.
\<close>

theorem one_jpeg_per_run:
  "(\<exists>img. files (snd (create_test_aadhaar w)) =
      (if write_error w ''aadhaar.jpg'' = None
       then (files w)(''aadhaar.jpg'' \<mapsto> Encoded ''JPEG'' 95 img) else files w)) \<and>
   (\<exists>img. files (snd (create_test_pan w)) =
      (if write_error w ''pan.jpg'' = None
       then (files w)(''pan.jpg'' \<mapsto> Encoded ''JPEG'' 95 img) else files w)) \<and>
   (\<exists>img. files (snd (passport_main w)) =
      (if write_error w ''passport.jpg'' = None
       then (files w)(''passport.jpg'' \<mapsto> Encoded ''JPEG'' 95 img) else files w)) \<and>
   (\<exists>img. files (snd (visa_main w)) =
      (if write_error w ''visa.jpg'' = None
       then (files w)(''visa.jpg'' \<mapsto> Encoded ''JPEG'' 95 img) else files w))"
  by (auto simp: aadhaar_closed pan_closed passport_main_closed visa_main_closed
      split: option.splits)

theorem one_jpeg_per_run_witness:
  "(\<exists>img. files (snd (create_test_aadhaar host_plain))
      = (files host_plain)(''aadhaar.jpg'' \<mapsto> Encoded ''JPEG'' 95 img)) \<and>
   (\<exists>img. files (snd (create_test_pan host_plain))
      = (files host_plain)(''pan.jpg'' \<mapsto> Encoded ''JPEG'' 95 img)) \<and>
   (\<exists>img. files (snd (passport_main host_plain))
      = (files host_plain)(''passport.jpg'' \<mapsto> Encoded ''JPEG'' 95 img)) \<and>
   (\<exists>img. files (snd (visa_main host_plain))
      = (files host_plain)(''visa.jpg'' \<mapsto> Encoded ''JPEG'' 95 img)) \<and>
   files (snd (visa_main host_read_only)) = files host_read_only"
proof -
  have ok: "write_error host_plain p = None" for p
    by (simp add: host_plain_def)
  have ro: "write_error host_read_only ''visa.jpg'' \<noteq> None"
    by (simp add: host_read_only_def)
  show ?thesis
    using one_jpeg_per_run [of host_plain] one_jpeg_per_run [of host_read_only] ok ro
    by simp
qed









text \<open>
  With the built-in font in all three places, every text operation of a canvas carries it.
\<close>

lemma text_fonts_default:
  "text_fonts (aadhaar_canvas (DefaultFont, DefaultFont, DefaultFont)) = replicate 10 DefaultFont"
  "text_fonts (pan_canvas (DefaultFont, DefaultFont, DefaultFont)) = replicate 9 DefaultFont"
  "text_fonts (passport_canvas (DefaultFont, DefaultFont, DefaultFont)) = replicate 18 DefaultFont"
  "text_fonts (resize sz (visa_canvas (DefaultFont, DefaultFont, DefaultFont)))
     = replicate 17 DefaultFont"
  by (simp_all add: text_fonts_def aadhaar_canvas_def pan_canvas_def passport_canvas_def
      visa_canvas_def resize_def eval_nat_numeral)

text \<open>
  Claim C10. On the fallback path the three font names of a script are bound to the same
  built-in font: whichever of the three \<^verbatim>\<open>truetype\<close> calls raises, and whatever
  exception it raises, \<open>load_fonts\<close> returns the built-in font three times, so every text
  of the image a script draws is in that one font.
\<close>

theorem fallback_binds_one_font:
  "((truetype w p l = Inl e1 \<or> truetype w p m = Inl e2 \<or> truetype w p s = Inl e3) \<longrightarrow>
      load_fonts w p l m s = (load_default, load_default, load_default)) \<and>
   (font_load_fails w 24 16 12 \<and> write_error w ''aadhaar.jpg'' = None \<longrightarrow>
      (\<exists>img. saved_image (snd (create_test_aadhaar w)) ''aadhaar.jpg'' = Some img
         \<and> set (text_fonts img) = {load_default})) \<and>
   (font_load_fails w 24 16 12 \<and> write_error w ''pan.jpg'' = None \<longrightarrow>
      (\<exists>img. saved_image (snd (create_test_pan w)) ''pan.jpg'' = Some img
         \<and> set (text_fonts img) = {load_default})) \<and>
   (font_load_fails w 16 12 10 \<longrightarrow>
      (\<exists>img. fst (create_passport_image w) = Inr img \<and> set (text_fonts img) = {load_default})) \<and>
   (font_load_fails w 14 11 9 \<longrightarrow>
      (\<exists>img. fst (create_visa_image w) = Inr img \<and> set (text_fonts img) = {load_default}))"
proof -
  have "load_fonts w p l m s = (load_default, load_default, load_default)"
    if "truetype w p l = Inl e1 \<or> truetype w p m = Inl e2 \<or> truetype w p s = Inl e3"
    using that by (auto simp: load_fonts_def split: sum.splits)
  then show ?thesis
    by (simp add: aadhaar_closed pan_closed passport_image_closed visa_image_closed
        load_fonts_fallback saved_image_def text_fonts_default load_default_def)
qed

theorem fallback_binds_one_font_witness:
  "truetype host_interrupted ''/System/Library/Fonts/Arial.ttf'' 24
     = Inr (FreeTypeFont ''/System/Library/Fonts/Arial.ttf'' 24) \<and>
   truetype host_interrupted ''/System/Library/Fonts/Arial.ttf'' 12 = Inl KeyboardInterrupt \<and>
   load_fonts host_interrupted ''/System/Library/Fonts/Arial.ttf'' 24 16 12
     = (load_default, load_default, load_default) \<and>
   font_load_fails host_interrupted 24 16 12 \<and> font_load_fails host_interrupted 16 12 10 \<and>
   font_load_fails host_interrupted 14 11 9 \<and>
   (\<exists>img. saved_image (snd (create_test_aadhaar host_interrupted)) ''aadhaar.jpg'' = Some img
      \<and> set (text_fonts img) = {load_default}) \<and>
   (\<exists>img. saved_image (snd (create_test_pan host_interrupted)) ''pan.jpg'' = Some img
      \<and> set (text_fonts img) = {load_default}) \<and>
   (\<exists>img. fst (create_passport_image host_interrupted) = Inr img
      \<and> set (text_fonts img) = {load_default}) \<and>
   (\<exists>img. fst (create_visa_image host_interrupted) = Inr img
      \<and> set (text_fonts img) = {load_default})"
proof -
  have t: "truetype host_interrupted p 12 = Inl KeyboardInterrupt"
    "truetype host_interrupted p 24 = Inr (FreeTypeFont p 24)" for p
    by (simp_all add: host_interrupted_def)
  have f: "font_load_fails host_interrupted 24 16 12" "font_load_fails host_interrupted 16 12 10"
    "font_load_fails host_interrupted 14 11 9"
    by (simp_all add: font_load_fails_def host_interrupted_def)
  have ok: "write_error host_interrupted q = None" for q
    by (simp add: host_interrupted_def)
  show ?thesis
    using fallback_binds_one_font [where w = host_interrupted
        and p = "''/System/Library/Fonts/Arial.ttf''" and l = 24 and m = 16 and s = 12
        and ?e2.0 = KeyboardInterrupt and ?e3.0 = KeyboardInterrupt] t f ok
    by simp
qed

text \<open>
  The pixels of the canvases. Appending an operation to a picture paints it over the
  pixels the picture had; where only some operations of a canvas can reach, the colour of
  a pixel is settled by these, the last one on top.
\<close>

lemma over_simps:
  "over 0 c u = u" "255 \<le> a \<Longrightarrow> over a c u = c"
  by (simp_all add: over_def)

lemma pixels_resize:
  "pixels L (resize sz img) p = resample L (img_size img) sz (pixels L img) p"
  by (simp add: pixels_def resize_def)

lemmas raster_defs = pixels_def on_canvas_def in_box_def on_ring_def

lemma aadhaar_band:
  "0 \<le> x \<and> x < 600 \<and> 0 \<le> y \<and> y < 45 \<longrightarrow>
   pixels L (aadhaar_canvas (fl, fm, fs)) (x, y) =
     (if 20 \<le> x \<and> 20 \<le> y
      then over (glyph_mask L fl ''Government of India'' (x - 20, y - 20)) (Named ''white'')
             (Named ''#FF6B35'')
      else Named ''#FF6B35'')"
  by (simp add: raster_defs aadhaar_canvas_def)

lemma pan_band:
  "0 \<le> x \<and> x < 600 \<and> 0 \<le> y \<and> y < 45 \<longrightarrow>
   pixels L (pan_canvas (fl, fm, fs)) (x, y) =
     (if 20 \<le> x \<and> 20 \<le> y
      then over (glyph_mask L fl ''INCOME TAX DEPARTMENT'' (x - 20, y - 20)) (Named ''white'')
             (Named ''#8B4513'')
      else Named ''#8B4513'')"
  by (simp add: raster_defs pan_canvas_def)

lemma passport_header:
  "12 \<le> x \<and> x \<le> 588 \<and> 12 \<le> y \<and> y \<le> 48 \<longrightarrow>
   pixels L (passport_canvas (fl, fm, fs)) (x, y) =
     (if 20 \<le> x \<and> 20 \<le> y
      then over (glyph_mask L fl ''ESTONIAN PASSPORT'' (x - 20, y - 20)) (Named ''black'')
             (Named ''white'')
      else Named ''white'')"
  by (simp add: raster_defs passport_canvas_def)

lemma visa_issue_date:
  "20 \<le> x \<and> x < 493 \<and> 200 \<le> y \<and> y < 220 \<and>
   255 \<le> glyph_mask L fm ''Issue Date: 14 MAR 2025'' (x - 20, y - 200) \<longrightarrow>
   pixels L (visa_canvas (fl, fm, fs)) (x, y) = Named ''red''"
  by (simp add: raster_defs visa_canvas_def over_simps)

lemma visa_border:
  "on_ring [5, 5, 495, 345] 3 (x, y) \<longrightarrow>
   pixels L (visa_canvas (fl, fm, fs)) (x, y) = Named ''blue''"
  by (simp add: raster_defs visa_canvas_def)

lemma same_fonts_same_file:
  "truetype w1 = truetype w2 \<longrightarrow>
     (write_error w1 ''aadhaar.jpg'' = None \<and> write_error w2 ''aadhaar.jpg'' = None \<longrightarrow>
        files (snd (create_test_aadhaar w1)) ''aadhaar.jpg'' = files (snd (create_test_aadhaar w2)) ''aadhaar.jpg'' \<and>
        map_option (file_bytes L) (files (snd (create_test_aadhaar w1)) ''aadhaar.jpg'')
          = map_option (file_bytes L) (files (snd (create_test_aadhaar w2)) ''aadhaar.jpg'')) \<and>
     (write_error w1 ''pan.jpg'' = None \<and> write_error w2 ''pan.jpg'' = None \<longrightarrow>
        files (snd (create_test_pan w1)) ''pan.jpg'' = files (snd (create_test_pan w2)) ''pan.jpg'' \<and>
        map_option (file_bytes L) (files (snd (create_test_pan w1)) ''pan.jpg'')
          = map_option (file_bytes L) (files (snd (create_test_pan w2)) ''pan.jpg'')) \<and>
     (write_error w1 ''passport.jpg'' = None \<and> write_error w2 ''passport.jpg'' = None \<longrightarrow>
        files (snd (passport_main w1)) ''passport.jpg'' = files (snd (passport_main w2)) ''passport.jpg'' \<and>
        map_option (file_bytes L) (files (snd (passport_main w1)) ''passport.jpg'')
          = map_option (file_bytes L) (files (snd (passport_main w2)) ''passport.jpg'')) \<and>
     (write_error w1 ''visa.jpg'' = None \<and> write_error w2 ''visa.jpg'' = None \<longrightarrow>
        files (snd (visa_main w1)) ''visa.jpg'' = files (snd (visa_main w2)) ''visa.jpg'' \<and>
        map_option (file_bytes L) (files (snd (visa_main w1)) ''visa.jpg'')
          = map_option (file_bytes L) (files (snd (visa_main w2)) ''visa.jpg'')) \<and>
     fst (create_passport_image w1) = fst (create_passport_image w2) \<and>
     fst (create_visa_image w1) = fst (create_visa_image w2)"
  by (simp add: aadhaar_closed pan_closed passport_main_closed visa_main_closed
      passport_image_closed visa_image_closed load_fonts_same_resolution [of w1 w2])

lemma aadhaar_stored:
  "write_error w ''aadhaar.jpg'' = None \<longrightarrow>
     files (snd (create_test_aadhaar w)) ''aadhaar.jpg''
       = Some (Encoded ''JPEG'' 95 (aadhaar_canvas (load_fonts w ''/System/Library/Fonts/Arial.ttf'' 24 16 12)))"
  by (simp add: aadhaar_closed)

lemma pan_stored:
  "write_error w ''pan.jpg'' = None \<longrightarrow>
     files (snd (create_test_pan w)) ''pan.jpg''
       = Some (Encoded ''JPEG'' 95 (pan_canvas (load_fonts w ''/System/Library/Fonts/Arial.ttf'' 24 16 12)))"
  by (simp add: pan_closed)

lemma passport_stored:
  "write_error w ''passport.jpg'' = None \<longrightarrow>
     files (snd (passport_main w)) ''passport.jpg''
       = Some (Encoded ''JPEG'' 95 (passport_canvas (load_fonts w ''/System/Library/Fonts/Arial.ttf'' 16 12 10)))"
  by (simp add: passport_main_closed)

lemma visa_stored:
  "write_error w ''visa.jpg'' = None \<longrightarrow>
     files (snd (visa_main w)) ''visa.jpg''
       = Some (Encoded ''JPEG'' 95 (resize (500, 450) (visa_canvas (load_fonts w ''/System/Library/Fonts/Arial.ttf'' 14 11 9))))"
  by (simp add: visa_main_closed)

lemma rectangle_paints_over:
  "pixels L (fst (snd (rectangle box fill outline wd (img, w)))) p =
     (if on_canvas (img_size img) p
      then paint L (Rectangle box fill outline wd) p (pixels L img p) else pixels L img p)"
  by (simp add: rectangle_def pixels_def)

lemma draw_text_paints_over:
  "pixels L (fst (snd (draw_text xy (Inr t) f c (img, w)))) p =
     (if on_canvas (img_size img) p
      then paint L (Text xy t f c) p (pixels L img p) else pixels L img p)"
  by (simp add: draw_text_def pixels_def)

text \<open>
  Claim C6. Two runs of a script on hosts that resolve fonts the same way and can both
  write the output store the same picture and, whatever the encoder and the rasteriser of
  the library are, the same bytes; the hosts may differ in command line, environment, disk
  and console. The picture stored is the canvas of the script, its operations in the order
  of the source. Every \<^verbatim>\<open>draw.rectangle\<close> and \<^verbatim>\<open>draw.text\<close> call paints
  over what the calls before it left on the canvas, and \<^verbatim>\<open>resize\<close> resamples the
  finished canvas. So on the header band of the Aadhaar and PAN cards a pixel is white where
  the title drawn after the band has ink and has the colour of the band elsewhere; inside
  the header box of the passport a pixel is black where the title has ink and white
  elsewhere; on the visa a pixel fully covered by the red issue-date line is red whatever
  the eight text lines drawn before it left there, and the blue border, drawn last, is blue
  along its whole ring.
\<close>

theorem drawn_in_order_reproducible:
  "(truetype w1 = truetype w2 \<longrightarrow>
     (write_error w1 ''aadhaar.jpg'' = None \<and> write_error w2 ''aadhaar.jpg'' = None \<longrightarrow>
        files (snd (create_test_aadhaar w1)) ''aadhaar.jpg'' = files (snd (create_test_aadhaar w2)) ''aadhaar.jpg'' \<and>
        map_option (file_bytes L) (files (snd (create_test_aadhaar w1)) ''aadhaar.jpg'')
          = map_option (file_bytes L) (files (snd (create_test_aadhaar w2)) ''aadhaar.jpg'')) \<and>
     (write_error w1 ''pan.jpg'' = None \<and> write_error w2 ''pan.jpg'' = None \<longrightarrow>
        files (snd (create_test_pan w1)) ''pan.jpg'' = files (snd (create_test_pan w2)) ''pan.jpg'' \<and>
        map_option (file_bytes L) (files (snd (create_test_pan w1)) ''pan.jpg'')
          = map_option (file_bytes L) (files (snd (create_test_pan w2)) ''pan.jpg'')) \<and>
     (write_error w1 ''passport.jpg'' = None \<and> write_error w2 ''passport.jpg'' = None \<longrightarrow>
        files (snd (passport_main w1)) ''passport.jpg'' = files (snd (passport_main w2)) ''passport.jpg'' \<and>
        map_option (file_bytes L) (files (snd (passport_main w1)) ''passport.jpg'')
          = map_option (file_bytes L) (files (snd (passport_main w2)) ''passport.jpg'')) \<and>
     (write_error w1 ''visa.jpg'' = None \<and> write_error w2 ''visa.jpg'' = None \<longrightarrow>
        files (snd (visa_main w1)) ''visa.jpg'' = files (snd (visa_main w2)) ''visa.jpg'' \<and>
        map_option (file_bytes L) (files (snd (visa_main w1)) ''visa.jpg'')
          = map_option (file_bytes L) (files (snd (visa_main w2)) ''visa.jpg'')) \<and>
     fst (create_passport_image w1) = fst (create_passport_image w2) \<and>
     fst (create_visa_image w1) = fst (create_visa_image w2)) \<and>
   (write_error w ''aadhaar.jpg'' = None \<longrightarrow>
     files (snd (create_test_aadhaar w)) ''aadhaar.jpg''
       = Some (Encoded ''JPEG'' 95 (aadhaar_canvas (load_fonts w ''/System/Library/Fonts/Arial.ttf'' 24 16 12)))) \<and>
   (write_error w ''pan.jpg'' = None \<longrightarrow>
     files (snd (create_test_pan w)) ''pan.jpg''
       = Some (Encoded ''JPEG'' 95 (pan_canvas (load_fonts w ''/System/Library/Fonts/Arial.ttf'' 24 16 12)))) \<and>
   (write_error w ''passport.jpg'' = None \<longrightarrow>
     files (snd (passport_main w)) ''passport.jpg''
       = Some (Encoded ''JPEG'' 95 (passport_canvas (load_fonts w ''/System/Library/Fonts/Arial.ttf'' 16 12 10)))) \<and>
   (write_error w ''visa.jpg'' = None \<longrightarrow>
     files (snd (visa_main w)) ''visa.jpg''
       = Some (Encoded ''JPEG'' 95 (resize (500, 450) (visa_canvas (load_fonts w ''/System/Library/Fonts/Arial.ttf'' 14 11 9))))) \<and>
   pixels L (fst (snd (rectangle box fill outline wd (img, w)))) p =
     (if on_canvas (img_size img) p
      then paint L (Rectangle box fill outline wd) p (pixels L img p) else pixels L img p) \<and>
   pixels L (fst (snd (draw_text xy (Inr t) f c (img, w)))) p =
     (if on_canvas (img_size img) p
      then paint L (Text xy t f c) p (pixels L img p) else pixels L img p) \<and>
   pixels L (resize sz img) p = resample L (img_size img) sz (pixels L img) p \<and>
   (0 \<le> x \<and> x < 600 \<and> 0 \<le> y \<and> y < 45 \<longrightarrow>
   pixels L (aadhaar_canvas (fl, fm, fs)) (x, y) =
     (if 20 \<le> x \<and> 20 \<le> y
      then over (glyph_mask L fl ''Government of India'' (x - 20, y - 20)) (Named ''white'')
             (Named ''#FF6B35'')
      else Named ''#FF6B35'')) \<and>
   (0 \<le> x \<and> x < 600 \<and> 0 \<le> y \<and> y < 45 \<longrightarrow>
   pixels L (pan_canvas (fl, fm, fs)) (x, y) =
     (if 20 \<le> x \<and> 20 \<le> y
      then over (glyph_mask L fl ''INCOME TAX DEPARTMENT'' (x - 20, y - 20)) (Named ''white'')
             (Named ''#8B4513'')
      else Named ''#8B4513'')) \<and>
   (12 \<le> x \<and> x \<le> 588 \<and> 12 \<le> y \<and> y \<le> 48 \<longrightarrow>
   pixels L (passport_canvas (fl, fm, fs)) (x, y) =
     (if 20 \<le> x \<and> 20 \<le> y
      then over (glyph_mask L fl ''ESTONIAN PASSPORT'' (x - 20, y - 20)) (Named ''black'')
             (Named ''white'')
      else Named ''white'')) \<and>
   (20 \<le> x \<and> x < 493 \<and> 200 \<le> y \<and> y < 220 \<and>
   255 \<le> glyph_mask L fm ''Issue Date: 14 MAR 2025'' (x - 20, y - 200) \<longrightarrow>
   pixels L (visa_canvas (fl, fm, fs)) (x, y) = Named ''red'') \<and>
   (on_ring [5, 5, 495, 345] 3 (x, y) \<longrightarrow>
   pixels L (visa_canvas (fl, fm, fs)) (x, y) = Named ''blue'')"
  by (intro conjI same_fonts_same_file aadhaar_stored pan_stored passport_stored visa_stored
      rectangle_paints_over draw_text_paints_over pixels_resize aadhaar_band pan_band
      passport_header visa_issue_date visa_border)

theorem drawn_in_order_reproducible_witness:
  "truetype host_arial = truetype (host_arial\<lparr>argv := [], environ := [(''TZ'', ''UTC'')], console := []\<rparr>) \<and>
   write_error host_arial ''aadhaar.jpg'' = None \<and>
   write_error (host_arial\<lparr>argv := [], environ := [(''TZ'', ''UTC'')], console := []\<rparr>) ''aadhaar.jpg'' = None \<and>
   files (snd (create_test_aadhaar host_arial)) ''aadhaar.jpg''
     = files (snd (create_test_aadhaar (host_arial\<lparr>argv := [], environ := [(''TZ'', ''UTC'')], console := []\<rparr>))) ''aadhaar.jpg'' \<and>
   map_option (file_bytes block_library) (files (snd (create_test_aadhaar host_arial)) ''aadhaar.jpg'')
     = map_option (file_bytes block_library)
         (files (snd (create_test_aadhaar (host_arial\<lparr>argv := [], environ := [(''TZ'', ''UTC'')], console := []\<rparr>))) ''aadhaar.jpg'') \<and>
   files (snd (create_test_aadhaar host_arial)) ''aadhaar.jpg''
     = Some (Encoded ''JPEG'' 95
         (aadhaar_canvas (load_fonts host_arial ''/System/Library/Fonts/Arial.ttf'' 24 16 12))) \<and>
   pixels block_library (aadhaar_canvas (FreeTypeFont ''/System/Library/Fonts/Arial.ttf'' 24, FreeTypeFont ''/System/Library/Fonts/Arial.ttf'' 16,
       FreeTypeFont ''/System/Library/Fonts/Arial.ttf'' 12)) (25, 25) = Named ''white'' \<and>
   pixels block_library (aadhaar_canvas (FreeTypeFont ''/System/Library/Fonts/Arial.ttf'' 24, FreeTypeFont ''/System/Library/Fonts/Arial.ttf'' 16,
       FreeTypeFont ''/System/Library/Fonts/Arial.ttf'' 12)) (5, 5) = Named ''#FF6B35'' \<and>
   255 \<le> glyph_mask block_library (FreeTypeFont ''/System/Library/Fonts/Arial.ttf'' 11) ''Issue Date: 14 MAR 2025''
            (30 - 20, 205 - 200) \<and>
   pixels block_library (visa_canvas (FreeTypeFont ''/System/Library/Fonts/Arial.ttf'' 14, FreeTypeFont ''/System/Library/Fonts/Arial.ttf'' 11,
       FreeTypeFont ''/System/Library/Fonts/Arial.ttf'' 9)) (30, 205) = Named ''red'' \<and>
   on_ring [5, 5, 495, 345] 3 (100, 344) \<and>
   pixels block_library (visa_canvas (FreeTypeFont ''/System/Library/Fonts/Arial.ttf'' 14, FreeTypeFont ''/System/Library/Fonts/Arial.ttf'' 11,
       FreeTypeFont ''/System/Library/Fonts/Arial.ttf'' 9)) (100, 344) = Named ''blue''"
proof -
  let ?w2 = "host_arial\<lparr>argv := [], environ := [(''TZ'', ''UTC'')], console := []\<rparr>"
  let ?fl = "FreeTypeFont ''/System/Library/Fonts/Arial.ttf'' 14" and ?fm = "FreeTypeFont ''/System/Library/Fonts/Arial.ttf'' 11"
    and ?fs = "FreeTypeFont ''/System/Library/Fonts/Arial.ttf'' 9"
  let ?al = "FreeTypeFont ''/System/Library/Fonts/Arial.ttf'' 24" and ?am = "FreeTypeFont ''/System/Library/Fonts/Arial.ttf'' 16"
    and ?as = "FreeTypeFont ''/System/Library/Fonts/Arial.ttf'' 12"
  have same: "truetype host_arial = truetype ?w2"
    by simp
  have ok: "write_error host_arial ''aadhaar.jpg'' = None \<and> write_error ?w2 ''aadhaar.jpg'' = None"
    by (simp add: host_arial_def)
  have mask: "255 \<le> glyph_mask block_library ?fm ''Issue Date: 14 MAR 2025'' (30 - 20, 205 - 200)"
    by (simp add: block_library_def)
  have ring: "on_ring [5, 5, 495, 345] 3 (100, 344)"
    by (simp add: on_ring_def in_box_def)
  note t1 = drawn_in_order_reproducible [where ?w1.0 = host_arial and ?w2.0 = ?w2
      and L = block_library and w = host_arial and x = 25 and y = 25
      and fl = ?al and fm = ?am and fs = ?as]
  note t2 = drawn_in_order_reproducible [where L = block_library and x = 5 and y = 5
      and fl = ?al and fm = ?am and fs = ?as]
  note t3 = drawn_in_order_reproducible [where L = block_library and x = 30 and y = 205
      and fl = ?fl and fm = ?fm and fs = ?fs]
  note t4 = drawn_in_order_reproducible [where L = block_library and x = 100 and y = 344
      and fl = ?fl and fm = ?fm and fs = ?fs]
  note det = t1 [THEN conjunct1, THEN mp, OF same, THEN conjunct1, THEN mp, OF ok]
  note stored = t1 [THEN conjunct2, THEN conjunct1, THEN mp, OF ok [THEN conjunct1]]
  have band1: "pixels block_library (aadhaar_canvas (?al, ?am, ?as)) (25, 25) = Named ''white''"
    using t1 [THEN conjunct2, THEN conjunct2, THEN conjunct2, THEN conjunct2, THEN conjunct2,
        THEN conjunct2, THEN conjunct2, THEN conjunct2, THEN conjunct1]
    by (simp add: block_library_def over_def)
  have band2: "pixels block_library (aadhaar_canvas (?al, ?am, ?as)) (5, 5) = Named ''#FF6B35''"
    using t2 [THEN conjunct2, THEN conjunct2, THEN conjunct2, THEN conjunct2, THEN conjunct2,
        THEN conjunct2, THEN conjunct2, THEN conjunct2, THEN conjunct1]
    by simp
  note red = t3 [THEN conjunct2, THEN conjunct2, THEN conjunct2, THEN conjunct2, THEN conjunct2,
        THEN conjunct2, THEN conjunct2, THEN conjunct2, THEN conjunct2, THEN conjunct2,
        THEN conjunct2, THEN conjunct1]
  have red': "pixels block_library (visa_canvas (?fl, ?fm, ?fs)) (30, 205) = Named ''red''"
    using red mask by simp
  note blue = t4 [THEN conjunct2, THEN conjunct2, THEN conjunct2, THEN conjunct2, THEN conjunct2,
        THEN conjunct2, THEN conjunct2, THEN conjunct2, THEN conjunct2, THEN conjunct2,
        THEN conjunct2, THEN conjunct2, THEN mp, OF ring]
  show ?thesis
    by (intro conjI same ok [THEN conjunct1] ok [THEN conjunct2] det [THEN conjunct1]
        det [THEN conjunct2] stored band1 band2 mask red' ring blue)
qed

text \<open>
  Claim C7. No run of a script raises \<^verbatim>\<open>KeyError\<close>: every key the statements look up
  is a key of the record, and the two renderer functions always return an image. Nothing
  stands in for a missing field: the passport renderer run on the record without its key
  \<^verbatim>\<open>sex\<close> raises \<^verbatim>\<open>KeyError('sex')\<close>.
\<close>

theorem record_lookups_never_miss:
  "fst (create_test_aadhaar w) \<noteq> Some (KeyError k) \<and>
   fst (create_test_pan w) \<noteq> Some (KeyError k) \<and>
   \<not> isl (fst (create_passport_image w)) \<and>
   fst (passport_main w) \<noteq> Some (KeyError k) \<and>
   \<not> isl (fst (create_visa_image w)) \<and>
   fst (visa_main w) \<noteq> Some (KeyError k) \<and>
   fst (create_passport_image_on (filter (\<lambda>kv. fst kv \<noteq> ''sex'') passport_data) w)
     = Inl (KeyError ''sex'')"
proof -
  have "fst (create_passport_image_on (filter (\<lambda>kv. fst kv \<noteq> ''sex'') passport_data) w)
     = Inl (KeyError ''sex'')"
    by (simp add: create_passport_image_on_def passport_data_def stmt_defs Let_def
        split: prod.splits)
  then show ?thesis
    by (simp add: aadhaar_closed pan_closed passport_main_closed visa_main_closed
        passport_image_closed visa_image_closed split: option.splits)
qed

theorem record_lookups_never_miss_witness:
  "fst (create_test_aadhaar host_plain) \<noteq> Some (KeyError ''father_name'') \<and>
   fst (create_test_pan host_plain) \<noteq> Some (KeyError ''father_name'') \<and>
   \<not> isl (fst (create_passport_image host_plain)) \<and>
   fst (passport_main host_plain) \<noteq> Some (KeyError ''father_name'') \<and>
   \<not> isl (fst (create_visa_image host_plain)) \<and>
   fst (visa_main host_plain) \<noteq> Some (KeyError ''father_name'') \<and>
   fst (create_passport_image_on (filter (\<lambda>kv. fst kv \<noteq> ''sex'') passport_data) host_plain)
     = Inl (KeyError ''sex'')"
  by (rule record_lookups_never_miss [of host_plain "''father_name''"])

text \<open>
  A property that every statement of a list preserves is preserved by running the list, up
  to the statement that raises. Drawing statements leave the world as it is, so a function
  made of drawing statements only does.
\<close>

lemma run_stmts_invariant:
  "list_all (\<lambda>f. \<forall>s. P s \<longrightarrow> P (snd (f s))) fs \<Longrightarrow> P s \<Longrightarrow> P (snd (run_stmts fs s))"
proof (induction fs arbitrary: s)
  case Nil
  then show ?case by simp
next
  case (Cons f fs)
  obtain r s' where step: "f s = (r, s')"
    by (cases "f s")
  with Cons.prems have "P s'"
    by auto
  show ?case
  proof (cases r)
    case None
    with step Cons.IH [of s'] Cons.prems \<open>P s'\<close> show ?thesis
      by simp
  next
    case (Some e)
    with step \<open>P s'\<close> show ?thesis
      by simp
  qed
qed

lemma draw_keeps_world:
  "snd s = w \<longrightarrow> snd (snd (draw_text xy str fnt fill s)) = w"
  "snd s = w \<longrightarrow> snd (snd (rectangle box fl ol wd s)) = w"
  by (auto simp: draw_text_def rectangle_def split: prod.splits sum.splits)

lemma renderer_world:
  "snd (case r of (Some e, s) \<Rightarrow> (Inl e, snd s) | (None, s) \<Rightarrow> (Inr (g s), snd s))
     = snd (snd r)"
  by (cases r; cases "fst r") simp_all

lemma draw_only_keeps_world:
  "list_all (\<lambda>f. \<forall>s. snd s = w \<longrightarrow> snd (snd (f s)) = w) fs \<Longrightarrow>
   snd (snd (run_stmts fs (img, w))) = w"
  using run_stmts_invariant [where P = "\<lambda>s. snd s = w" and s = "(img, w)"] by simp

lemma passport_renderer_frame: "snd (create_passport_image_on d w) = w"
proof -
  obtain fl fm fs
    where "load_fonts w ''/System/Library/Fonts/Arial.ttf'' 16 12 10 = (fl, fm, fs)"
    by (rule prod_cases3)
  then show ?thesis
    by (simp add: create_passport_image_on_def Let_def renderer_world draw_only_keeps_world
        draw_keeps_world del: run_stmts.simps)
qed

lemma visa_renderer_frame: "snd (create_visa_image_on d w) = w"
proof -
  obtain fl fm fs
    where "load_fonts w ''/System/Library/Fonts/Arial.ttf'' 14 11 9 = (fl, fm, fs)"
    by (rule prod_cases3)
  then show ?thesis
    by (simp add: create_visa_image_on_def Let_def renderer_world draw_only_keeps_world
        draw_keeps_world del: run_stmts.simps)
qed

text \<open>
  Claim C5, as stated, fails for the Aadhaar generator (and the PAN generator, written the
  same way): its only function, \<^verbatim>\<open>create_test_aadhaar\<close>, draws the image and then
  saves it and prints the report itself, so the function that renders changes the disk and
  the console.
\<close>

theorem single_function_writes_counterexample:
  "snd (create_test_aadhaar host_plain) \<noteq> host_plain \<and>
   files host_plain ''aadhaar.jpg'' = None \<and>
   files (snd (create_test_aadhaar host_plain)) ''aadhaar.jpg'' \<noteq> None \<and>
   console host_plain = [] \<and>
   console (snd (create_test_aadhaar host_plain)) \<noteq> []"
proof -
  have c: "console host_plain = []" and f: "files host_plain ''aadhaar.jpg'' = None"
    and ok: "write_error host_plain ''aadhaar.jpg'' = None"
    by (simp_all add: host_plain_def)
  have c': "console (snd (create_test_aadhaar host_plain)) \<noteq> []"
    by (simp add: aadhaar_closed ok)
  have f': "files (snd (create_test_aadhaar host_plain)) ''aadhaar.jpg'' \<noteq> None"
    by (simp add: aadhaar_closed ok)
  from c c' have "snd (create_test_aadhaar host_plain) \<noteq> host_plain"
    by metis
  with c f c' f' show ?thesis
    by simp
qed

text \<open>
  Claim C5, amended. In the passport and visa scripts the renderer function returns the
  image and leaves the world as it found it, for every record, and the file that the
  caller writes afterwards holds the image returned. In the Aadhaar and PAN scripts one
  function draws, saves and prints; the save comes after the last drawing statement, so
  the file holds the complete drawing.
\<close>

theorem renderers_return_save_follows:
  "snd (create_passport_image_on d w) = w \<and>
   snd (create_visa_image_on d w) = w \<and>
   (write_error w ''passport.jpg'' = None \<longrightarrow>
      map_option Inr (saved_image (snd (passport_main w)) ''passport.jpg'')
        = Some (fst (create_passport_image w))) \<and>
   (write_error w ''visa.jpg'' = None \<longrightarrow>
      map_option Inr (saved_image (snd (visa_main w)) ''visa.jpg'')
        = Some (fst (create_visa_image w))) \<and>
   (write_error w ''aadhaar.jpg'' = None \<longrightarrow>
      saved_image (snd (create_test_aadhaar w)) ''aadhaar.jpg''
        = Some (aadhaar_canvas (load_fonts w ''/System/Library/Fonts/Arial.ttf'' 24 16 12))) \<and>
   (write_error w ''pan.jpg'' = None \<longrightarrow>
      saved_image (snd (create_test_pan w)) ''pan.jpg''
        = Some (pan_canvas (load_fonts w ''/System/Library/Fonts/Arial.ttf'' 24 16 12)))"
  by (simp add: passport_renderer_frame visa_renderer_frame aadhaar_closed pan_closed
      passport_main_closed visa_main_closed passport_image_closed visa_image_closed
      saved_image_def)

theorem renderers_return_save_follows_witness:
  "snd (create_passport_image_on passport_data host_plain) = host_plain \<and>
   snd (create_visa_image_on [] host_plain) = host_plain \<and>
   map_option Inr (saved_image (snd (passport_main host_plain)) ''passport.jpg'')
     = Some (fst (create_passport_image host_plain)) \<and>
   map_option Inr (saved_image (snd (visa_main host_plain)) ''visa.jpg'')
     = Some (fst (create_visa_image host_plain))"
proof -
  have ok: "write_error host_plain q = None" for q
    by (simp add: host_plain_def)
  show ?thesis
    using renderers_return_save_follows [of passport_data host_plain]
      renderers_return_save_follows [of "[]" host_plain] ok
    by simp
qed

text \<open>
  The report against the drawing, for any record that holds the keys of the shipped one and
  any host that can write the file.
\<close>

lemmas report_defs = stmt_defs Let_def saved_image_def printed_def agrees_def drawn_texts_def
  on_canvas_def

lemma aadhaar_report_agrees:
  assumes keys: "has_keys d (map fst aadhaar_data)"
    and ok: "write_error w ''aadhaar.jpg'' = None"
  shows "\<exists>img. saved_image (snd (create_test_aadhaar_on d w)) ''aadhaar.jpg'' = Some img \<and>
     list_all (agrees d img (printed w (snd (create_test_aadhaar_on d w)))) aadhaar_fields"
proof -
  from keys obtain v1 v2 v3 v4 v5 v6 where
    "map_of d ''name'' = Some v1" "map_of d ''aadhaar_number'' = Some v2"
    "map_of d ''date_of_birth'' = Some v3" "map_of d ''address'' = Some v4"
    "map_of d ''gender'' = Some v5" "map_of d ''father_name'' = Some v6"
    by (auto simp: has_keys_def aadhaar_data_def)
  with ok show ?thesis
    by (simp add: create_test_aadhaar_on_def report_defs aadhaar_fields_def split: prod.splits)
qed

lemma pan_report_agrees:
  assumes keys: "has_keys d (map fst pan_data)"
    and ok: "write_error w ''pan.jpg'' = None"
  shows "\<exists>img. saved_image (snd (create_test_pan_on d w)) ''pan.jpg'' = Some img \<and>
     list_all (agrees d img (printed w (snd (create_test_pan_on d w)))) pan_fields"
proof -
  from keys obtain v1 v2 v3 v4 where
    "map_of d ''name'' = Some v1" "map_of d ''pan_number'' = Some v2"
    "map_of d ''father_name'' = Some v3" "map_of d ''date_of_birth'' = Some v4"
    by (auto simp: has_keys_def pan_data_def)
  with ok show ?thesis
    by (simp add: create_test_pan_on_def report_defs pan_fields_def split: prod.splits)
qed

lemma passport_report_agrees:
  assumes keys: "has_keys d (map fst passport_data)"
    and ok: "write_error w ''passport.jpg'' = None"
  shows "\<exists>img surname given.
     saved_image (snd (passport_main_on d w)) ''passport.jpg'' = Some img \<and>
     map_of d ''surname'' = Some surname \<and> map_of d ''given_name'' = Some given \<and>
     value_of ''Full Name: '' (printed w (snd (passport_main_on d w)))
       = Some (surname @ '', '' @ given) \<and>
     value_of ''1. Perekonnanimi / Surname: '' (drawn_texts img) = Some surname \<and>
     value_of ''2. Eesnimi / Given name: '' (drawn_texts img) = Some given \<and>
     agrees d img (printed w (snd (passport_main_on d w)))
       (''Passport Number: '', ''Dokumendi number: '', ''document_number'') \<and>
     value_of ''Nationality: '' (printed w (snd (passport_main_on d w))) = Some ''Estonia'' \<and>
     value_of ''4. Kodakondsus / Citizenship: '' (drawn_texts img) = map_of d ''citizenship'' \<and>
     value_of ''Date of Birth: '' (printed w (snd (passport_main_on d w))) = Some ''1990-10-19'' \<and>
     value_of (''5. S'' @ [CHR 0xFC] @ ''nniaeg / Date of birth: '') (drawn_texts img)
       = map_of d ''date_of_birth'' \<and>
     value_of ''Expiry Date: '' (printed w (snd (passport_main_on d w))) = Some ''2033-02-13'' \<and>
     value_of ''9. Kehtiv kuni: '' (drawn_texts img) = map_of d ''date_of_expiry'' \<and>
     value_of ''Issue Date: '' (printed w (snd (passport_main_on d w))) = Some ''2023-02-13'' \<and>
     value_of (''8. V'' @ [CHR 0xE4] @ ''lja antud: '') (drawn_texts img) = map_of d ''date_of_issue''"
proof -
  from keys obtain v1 v2 v3 v4 v5 v6 v7 v8 v9 v10 v11 v12 v13 v14 v15 where
    "map_of d ''type'' = Some v1" "map_of d ''country_code'' = Some v2"
    "map_of d ''surname'' = Some v3" "map_of d ''given_name'' = Some v4"
    "map_of d ''personal_code'' = Some v5" "map_of d ''date_of_birth'' = Some v6"
    "map_of d ''document_number'' = Some v7" "map_of d ''citizenship'' = Some v8"
    "map_of d ''sex'' = Some v9" "map_of d ''place_of_birth'' = Some v10"
    "map_of d ''date_of_issue'' = Some v11" "map_of d ''date_of_expiry'' = Some v12"
    "map_of d ''authority'' = Some v13" "map_of d ''mrz_line1'' = Some v14"
    "map_of d ''mrz_line2'' = Some v15"
    by (auto simp: has_keys_def passport_data_def)
  with ok show ?thesis
    by (simp add: passport_main_on_def create_passport_image_on_def report_defs
        split: prod.splits)
qed

lemma visa_report_agrees:
  assumes keys: "has_keys d (map fst visa_data)"
    and ok: "write_error w ''visa.jpg'' = None"
  shows "\<exists>img. saved_image (snd (visa_main_on d w)) ''visa.jpg'' = Some img \<and>
     list_all (agrees d img (printed w (snd (visa_main_on d w)))) visa_fields \<and>
     value_of ''Issue Date: '' (printed w (snd (visa_main_on d w))) = Some ''2025-03-14'' \<and>
     value_of ''Issue Date: '' (drawn_texts img) = map_of d ''issue_date'' \<and>
     value_of ''Expiry Date: '' (printed w (snd (visa_main_on d w))) = Some ''2026-03-09'' \<and>
     value_of ''Expiry Date: '' (drawn_texts img) = map_of d ''expiry_date''"
proof -
  from keys obtain v1 v2 v3 v4 v5 v6 v7 v8 v9 v10 v11 v12 v13 v14 v15 v16 where
    "map_of d ''visa_type'' = Some v1" "map_of d ''visa_category'' = Some v2"
    "map_of d ''visa_number'' = Some v3" "map_of d ''country'' = Some v4"
    "map_of d ''authority'' = Some v5" "map_of d ''issue_date'' = Some v6"
    "map_of d ''expiry_date'' = Some v7" "map_of d ''place_of_issue'' = Some v8"
    "map_of d ''purpose_of_visit'' = Some v9" "map_of d ''port_of_entry'' = Some v10"
    "map_of d ''entries'' = Some v11" "map_of d ''stay_duration'' = Some v12"
    "map_of d ''nationality'' = Some v13" "map_of d ''passport_number'' = Some v14"
    "map_of d ''visa_status'' = Some v15" "map_of d ''remarks'' = Some v16"
    by (auto simp: has_keys_def visa_data_def)
  with ok show ?thesis
    by (simp add: visa_main_on_def create_visa_image_on_def report_defs visa_fields_def
        resize_def split: prod.splits)
qed

text \<open>
  The values carried by the text lines of the passport and visa canvases, for any fonts.
\<close>

lemma passport_canvas_texts:
  "value_of ''1. Perekonnanimi / Surname: '' (drawn_texts (passport_canvas fnts)) = Some ''UUENI''"
  "value_of ''2. Eesnimi / Given name: '' (drawn_texts (passport_canvas fnts)) = Some ''KATRINA''"
  "value_of ''4. Kodakondsus / Citizenship: '' (drawn_texts (passport_canvas fnts)) = Some ''EST''"
  "value_of (''5. S'' @ [CHR 0xFC] @ ''nniaeg / Date of birth: '') (drawn_texts (passport_canvas fnts))
     = Some ''19.10.1990''"
  "value_of ''9. Kehtiv kuni: '' (drawn_texts (passport_canvas fnts)) = Some ''13.02.2033''"
  "value_of (''8. V'' @ [CHR 0xE4] @ ''lja antud: '') (drawn_texts (passport_canvas fnts))
     = Some ''13.02.2023''"
  by (cases fnts; simp add: passport_canvas_def drawn_texts_def on_canvas_def)+

lemma visa_canvas_texts:
  "value_of ''Issue Date: '' (drawn_texts (resize (500, 450) (visa_canvas fnts)))
     = Some ''14 MAR 2025''"
  "value_of ''Expiry Date: '' (drawn_texts (resize (500, 450) (visa_canvas fnts)))
     = Some ''09 Mar 2026''"
  by (cases fnts; simp add: visa_canvas_def drawn_texts_def on_canvas_def resize_def)+

text \<open>
  The last two text lines of the visa, \<^verbatim>\<open>Status\<close> and \<^verbatim>\<open>Remarks\<close>, are
  positioned at the heights 350 and 370 on a canvas 350 pixels high: they are among the
  operations of the canvas and not among the texts drawn on it.
\<close>

lemma visa_status_remarks_off_canvas:
  "Text (20, 350) ''Status: Active'' fm ''black'' \<in> set (img_ops (visa_canvas (fl, fm, fs)))"
  "Text (20, 370) ''Remarks: Valid for tourism and leisure activities'' fm ''black''
     \<in> set (img_ops (visa_canvas (fl, fm, fs)))"
  "img_size (visa_canvas (fl, fm, fs)) = (500, 350)"
  "\<not> on_canvas (500, 350) (20, 350)" "\<not> on_canvas (500, 350) (20, 370)"
  "value_of ''Status: '' (drawn_texts (resize (500, 450) (visa_canvas (fl, fm, fs)))) = None"
  "value_of ''Remarks: '' (drawn_texts (resize (500, 450) (visa_canvas (fl, fm, fs)))) = None"
  by (simp_all add: visa_canvas_def drawn_texts_def on_canvas_def resize_def)

text \<open>
  Claim C1, as stated, fails. The passport script prints its nationality, date of birth,
  expiry date and issue date, and the visa script its issue date and expiry date, as string
  literals that differ from the values drawn: \<^verbatim>\<open>Estonia\<close> against
  \<^verbatim>\<open>EST\<close>, \<^verbatim>\<open>1990-10-19\<close> against \<^verbatim>\<open>19.10.1990\<close>,
  \<^verbatim>\<open>2033-02-13\<close> against \<^verbatim>\<open>13.02.2033\<close>, \<^verbatim>\<open>2023-02-13\<close> against
  \<^verbatim>\<open>13.02.2023\<close>, \<^verbatim>\<open>2025-03-14\<close> against \<^verbatim>\<open>14 MAR 2025\<close> and
  \<^verbatim>\<open>2026-03-09\<close> against \<^verbatim>\<open>09 Mar 2026\<close>. The passport's full name is
  printed as \<^verbatim>\<open>UUENI, KATRINA\<close>, where the image has the surname and the given name
  on two lines.
\<close>

theorem literal_report_lines_counterexample:
  "saved_image (snd (passport_main host_plain)) ''passport.jpg''
     = Some (passport_canvas (DefaultFont, DefaultFont, DefaultFont)) \<and>
   value_of ''Date of Birth: '' (printed host_plain (snd (passport_main host_plain)))
     = Some ''1990-10-19'' \<and>
   value_of (''5. S'' @ [CHR 0xFC] @ ''nniaeg / Date of birth: '')
       (drawn_texts (passport_canvas (DefaultFont, DefaultFont, DefaultFont)))
     = Some ''19.10.1990'' \<and>
   ''1990-10-19'' \<noteq> ''19.10.1990'' \<and>
   value_of ''Nationality: '' (printed host_plain (snd (passport_main host_plain)))
     = Some ''Estonia'' \<and>
   value_of ''4. Kodakondsus / Citizenship: ''
       (drawn_texts (passport_canvas (DefaultFont, DefaultFont, DefaultFont)))
     = Some ''EST'' \<and>
   ''Estonia'' \<noteq> ''EST'' \<and>
   value_of ''Expiry Date: '' (printed host_plain (snd (passport_main host_plain)))
     = Some ''2033-02-13'' \<and>
   value_of ''9. Kehtiv kuni: ''
       (drawn_texts (passport_canvas (DefaultFont, DefaultFont, DefaultFont)))
     = Some ''13.02.2033'' \<and>
   ''2033-02-13'' \<noteq> ''13.02.2033'' \<and>
   value_of ''Issue Date: '' (printed host_plain (snd (passport_main host_plain)))
     = Some ''2023-02-13'' \<and>
   value_of (''8. V'' @ [CHR 0xE4] @ ''lja antud: '')
       (drawn_texts (passport_canvas (DefaultFont, DefaultFont, DefaultFont)))
     = Some ''13.02.2023'' \<and>
   ''2023-02-13'' \<noteq> ''13.02.2023'' \<and>
   value_of ''Full Name: '' (printed host_plain (snd (passport_main host_plain)))
     = Some ''UUENI, KATRINA'' \<and>
   value_of ''1. Perekonnanimi / Surname: ''
       (drawn_texts (passport_canvas (DefaultFont, DefaultFont, DefaultFont)))
     = Some ''UUENI'' \<and>
   value_of ''2. Eesnimi / Given name: ''
       (drawn_texts (passport_canvas (DefaultFont, DefaultFont, DefaultFont)))
     = Some ''KATRINA'' \<and>
   ''UUENI, KATRINA'' \<noteq> ''UUENI'' \<and> ''UUENI, KATRINA'' \<noteq> ''KATRINA'' \<and>
   saved_image (snd (visa_main host_plain)) ''visa.jpg''
     = Some (resize (500, 450) (visa_canvas (DefaultFont, DefaultFont, DefaultFont))) \<and>
   value_of ''Issue Date: '' (printed host_plain (snd (visa_main host_plain)))
     = Some ''2025-03-14'' \<and>
   value_of ''Issue Date: ''
       (drawn_texts (resize (500, 450) (visa_canvas (DefaultFont, DefaultFont, DefaultFont))))
     = Some ''14 MAR 2025'' \<and>
   ''2025-03-14'' \<noteq> ''14 MAR 2025'' \<and>
   value_of ''Expiry Date: '' (printed host_plain (snd (visa_main host_plain)))
     = Some ''2026-03-09'' \<and>
   value_of ''Expiry Date: ''
       (drawn_texts (resize (500, 450) (visa_canvas (DefaultFont, DefaultFont, DefaultFont))))
     = Some ''09 Mar 2026'' \<and>
   ''2026-03-09'' \<noteq> ''09 Mar 2026''"
proof -
  have ok: "write_error host_plain q = None" for q
    by (simp add: host_plain_def)
  have fonts: "load_fonts host_plain p l m s = (DefaultFont, DefaultFont, DefaultFont)" for p l m s
    by (simp add: load_fonts_def host_plain_def load_default_def)
  show ?thesis
    by (simp add: passport_main_closed visa_main_closed ok fonts printed_def saved_image_def
        passport_canvas_texts [simplified] visa_canvas_texts)
qed

text \<open>
  The six lines printed from literals, against the drawing, on any host that can write the
  output.
\<close>

lemma passport_literal_lines:
  assumes ok: "write_error w ''passport.jpg'' = None"
  shows "\<exists>img. saved_image (snd (passport_main w)) ''passport.jpg'' = Some img \<and>
     value_of ''Nationality: '' (printed w (snd (passport_main w))) = Some ''Estonia'' \<and>
     value_of ''4. Kodakondsus / Citizenship: '' (drawn_texts img) = Some ''EST'' \<and>
     value_of ''Date of Birth: '' (printed w (snd (passport_main w))) = Some ''1990-10-19'' \<and>
     value_of (''5. S'' @ [CHR 0xFC] @ ''nniaeg / Date of birth: '') (drawn_texts img)
       = Some ''19.10.1990'' \<and>
     value_of ''Expiry Date: '' (printed w (snd (passport_main w))) = Some ''2033-02-13'' \<and>
     value_of ''9. Kehtiv kuni: '' (drawn_texts img) = Some ''13.02.2033'' \<and>
     value_of ''Issue Date: '' (printed w (snd (passport_main w))) = Some ''2023-02-13'' \<and>
     value_of (''8. V'' @ [CHR 0xE4] @ ''lja antud: '') (drawn_texts img) = Some ''13.02.2023''"
  using ok
  by (simp add: passport_main_closed printed_def saved_image_def passport_canvas_texts [simplified])

lemma visa_literal_lines:
  assumes ok: "write_error w ''visa.jpg'' = None"
  shows "\<exists>img. saved_image (snd (visa_main w)) ''visa.jpg'' = Some img \<and>
     value_of ''Issue Date: '' (printed w (snd (visa_main w))) = Some ''2025-03-14'' \<and>
     value_of ''Issue Date: '' (drawn_texts img) = Some ''14 MAR 2025'' \<and>
     value_of ''Expiry Date: '' (printed w (snd (visa_main w))) = Some ''2026-03-09'' \<and>
     value_of ''Expiry Date: '' (drawn_texts img) = Some ''09 Mar 2026''"
  using ok
  by (simp add: visa_main_closed printed_def saved_image_def visa_canvas_texts)

text \<open>
  Claim C1, amended. For any record holding the keys of the shipped one, every line of the
  report that is printed from a record lookup carries the value of the text line drawn on
  the canvas from the same key, the value the record holds for that key: the five Aadhaar
  fields, the four PAN fields, the passport number, and the visa's type, category, number,
  country, place of issue, purpose, port of entry, entries, duration of stay, nationality
  and passport number. The passport's full name is the drawn surname and the drawn given
  name joined by a comma and a space. Six lines are printed from literals, whatever the
  record holds, while the drawing shows the record's value; with the shipped records the two
  differ in every one of the six (passport nationality, date of birth, expiry date and
  issue date; visa issue date and expiry date).
\<close>

theorem report_and_drawing:
  "(has_keys d (map fst aadhaar_data) \<and> write_error w ''aadhaar.jpg'' = None \<longrightarrow>
      (\<exists>img. saved_image (snd (create_test_aadhaar_on d w)) ''aadhaar.jpg'' = Some img \<and>
         list_all (agrees d img (printed w (snd (create_test_aadhaar_on d w))))
           aadhaar_fields)) \<and>
   (has_keys d (map fst pan_data) \<and> write_error w ''pan.jpg'' = None \<longrightarrow>
      (\<exists>img. saved_image (snd (create_test_pan_on d w)) ''pan.jpg'' = Some img \<and>
         list_all (agrees d img (printed w (snd (create_test_pan_on d w)))) pan_fields)) \<and>
   (has_keys d (map fst passport_data) \<and> write_error w ''passport.jpg'' = None \<longrightarrow>
      (\<exists>img surname given.
         saved_image (snd (passport_main_on d w)) ''passport.jpg'' = Some img \<and>
         map_of d ''surname'' = Some surname \<and> map_of d ''given_name'' = Some given \<and>
         value_of ''Full Name: '' (printed w (snd (passport_main_on d w)))
           = Some (surname @ '', '' @ given) \<and>
         value_of ''1. Perekonnanimi / Surname: '' (drawn_texts img) = Some surname \<and>
         value_of ''2. Eesnimi / Given name: '' (drawn_texts img) = Some given \<and>
         agrees d img (printed w (snd (passport_main_on d w)))
           (''Passport Number: '', ''Dokumendi number: '', ''document_number'') \<and>
         value_of ''Nationality: '' (printed w (snd (passport_main_on d w))) = Some ''Estonia'' \<and>
         value_of ''4. Kodakondsus / Citizenship: '' (drawn_texts img) = map_of d ''citizenship'' \<and>
         value_of ''Date of Birth: '' (printed w (snd (passport_main_on d w)))
           = Some ''1990-10-19'' \<and>
         value_of (''5. S'' @ [CHR 0xFC] @ ''nniaeg / Date of birth: '') (drawn_texts img)
           = map_of d ''date_of_birth'' \<and>
         value_of ''Expiry Date: '' (printed w (snd (passport_main_on d w)))
           = Some ''2033-02-13'' \<and>
         value_of ''9. Kehtiv kuni: '' (drawn_texts img) = map_of d ''date_of_expiry'' \<and>
         value_of ''Issue Date: '' (printed w (snd (passport_main_on d w)))
           = Some ''2023-02-13'' \<and>
         value_of (''8. V'' @ [CHR 0xE4] @ ''lja antud: '') (drawn_texts img)
           = map_of d ''date_of_issue'')) \<and>
   (has_keys d (map fst visa_data) \<and> write_error w ''visa.jpg'' = None \<longrightarrow>
      (\<exists>img. saved_image (snd (visa_main_on d w)) ''visa.jpg'' = Some img \<and>
         list_all (agrees d img (printed w (snd (visa_main_on d w)))) visa_fields \<and>
         value_of ''Issue Date: '' (printed w (snd (visa_main_on d w))) = Some ''2025-03-14'' \<and>
         value_of ''Issue Date: '' (drawn_texts img) = map_of d ''issue_date'' \<and>
         value_of ''Expiry Date: '' (printed w (snd (visa_main_on d w))) = Some ''2026-03-09'' \<and>
         value_of ''Expiry Date: '' (drawn_texts img) = map_of d ''expiry_date'')) \<and>
   (write_error w ''passport.jpg'' = None \<longrightarrow>
      (\<exists>img. saved_image (snd (passport_main w)) ''passport.jpg'' = Some img \<and>
         value_of ''Nationality: '' (printed w (snd (passport_main w))) = Some ''Estonia'' \<and>
         value_of ''4. Kodakondsus / Citizenship: '' (drawn_texts img) = Some ''EST'' \<and>
         value_of ''Date of Birth: '' (printed w (snd (passport_main w))) = Some ''1990-10-19'' \<and>
         value_of (''5. S'' @ [CHR 0xFC] @ ''nniaeg / Date of birth: '') (drawn_texts img)
           = Some ''19.10.1990'' \<and>
         value_of ''Expiry Date: '' (printed w (snd (passport_main w))) = Some ''2033-02-13'' \<and>
         value_of ''9. Kehtiv kuni: '' (drawn_texts img) = Some ''13.02.2033'' \<and>
         value_of ''Issue Date: '' (printed w (snd (passport_main w))) = Some ''2023-02-13'' \<and>
         value_of (''8. V'' @ [CHR 0xE4] @ ''lja antud: '') (drawn_texts img)
           = Some ''13.02.2023'')) \<and>
   (write_error w ''visa.jpg'' = None \<longrightarrow>
      (\<exists>img. saved_image (snd (visa_main w)) ''visa.jpg'' = Some img \<and>
         value_of ''Issue Date: '' (printed w (snd (visa_main w))) = Some ''2025-03-14'' \<and>
         value_of ''Issue Date: '' (drawn_texts img) = Some ''14 MAR 2025'' \<and>
         value_of ''Expiry Date: '' (printed w (snd (visa_main w))) = Some ''2026-03-09'' \<and>
         value_of ''Expiry Date: '' (drawn_texts img) = Some ''09 Mar 2026''))"
  using aadhaar_report_agrees [of d w] pan_report_agrees [of d w]
    passport_report_agrees [of d w] visa_report_agrees [of d w]
    passport_literal_lines [of w] visa_literal_lines [of w]
  by blast

theorem report_and_drawing_witness:
  "has_keys aadhaar_data (map fst aadhaar_data) \<and> write_error host_plain ''aadhaar.jpg'' = None \<and>
   (\<exists>img. saved_image (snd (create_test_aadhaar_on aadhaar_data host_plain)) ''aadhaar.jpg''
        = Some img \<and>
      list_all (agrees aadhaar_data img
          (printed host_plain (snd (create_test_aadhaar_on aadhaar_data host_plain))))
        aadhaar_fields) \<and>
   has_keys pan_data (map fst pan_data) \<and> write_error host_plain ''pan.jpg'' = None \<and>
   (\<exists>img. saved_image (snd (create_test_pan_on pan_data host_plain)) ''pan.jpg'' = Some img \<and>
      list_all (agrees pan_data img
          (printed host_plain (snd (create_test_pan_on pan_data host_plain))))
        pan_fields) \<and>
   has_keys visa_data (map fst visa_data) \<and> write_error host_plain ''visa.jpg'' = None \<and>
   (\<exists>img. saved_image (snd (visa_main_on visa_data host_plain)) ''visa.jpg'' = Some img \<and>
      list_all (agrees visa_data img (printed host_plain (snd (visa_main_on visa_data host_plain))))
        visa_fields \<and>
      value_of ''Issue Date: '' (printed host_plain (snd (visa_main_on visa_data host_plain)))
        = Some ''2025-03-14'' \<and>
      value_of ''Issue Date: '' (drawn_texts img) = map_of visa_data ''issue_date'' \<and>
      value_of ''Expiry Date: '' (printed host_plain (snd (visa_main_on visa_data host_plain)))
        = Some ''2026-03-09'' \<and>
      value_of ''Expiry Date: '' (drawn_texts img) = map_of visa_data ''expiry_date'') \<and>
   has_keys passport_data (map fst passport_data) \<and>
   write_error host_plain ''passport.jpg'' = None \<and>
   (\<exists>img. saved_image (snd (passport_main host_plain)) ''passport.jpg'' = Some img \<and>
      value_of ''Nationality: '' (printed host_plain (snd (passport_main host_plain)))
        = Some ''Estonia'' \<and>
      value_of ''4. Kodakondsus / Citizenship: '' (drawn_texts img) = Some ''EST'' \<and>
      value_of ''Date of Birth: '' (printed host_plain (snd (passport_main host_plain)))
        = Some ''1990-10-19'' \<and>
      value_of (''5. S'' @ [CHR 0xFC] @ ''nniaeg / Date of birth: '') (drawn_texts img)
        = Some ''19.10.1990'' \<and>
      value_of ''Expiry Date: '' (printed host_plain (snd (passport_main host_plain)))
        = Some ''2033-02-13'' \<and>
      value_of ''9. Kehtiv kuni: '' (drawn_texts img) = Some ''13.02.2033'' \<and>
      value_of ''Issue Date: '' (printed host_plain (snd (passport_main host_plain)))
        = Some ''2023-02-13'' \<and>
      value_of (''8. V'' @ [CHR 0xE4] @ ''lja antud: '') (drawn_texts img) = Some ''13.02.2023'')"
proof -
  have ok: "write_error host_plain q = None" for q
    by (simp add: host_plain_def)
  have ka: "has_keys aadhaar_data (map fst aadhaar_data)"
    by (simp add: has_keys_def aadhaar_data_def)
  have kp: "has_keys pan_data (map fst pan_data)"
    by (simp add: has_keys_def pan_data_def)
  have ke: "has_keys passport_data (map fst passport_data)"
    by (simp add: has_keys_def passport_data_def)
  have kv: "has_keys visa_data (map fst visa_data)"
    by (simp add: has_keys_def visa_data_def)
  note a = report_and_drawing [of aadhaar_data host_plain, THEN conjunct1, THEN mp,
      OF conjI [OF ka ok]]
  note p = report_and_drawing [of pan_data host_plain, THEN conjunct2, THEN conjunct1,
      THEN mp, OF conjI [OF kp ok]]
  note v = report_and_drawing [of visa_data host_plain, THEN conjunct2, THEN conjunct2,
      THEN conjunct2, THEN conjunct1, THEN mp, OF conjI [OF kv ok]]
  note e = report_and_drawing [of passport_data host_plain, THEN conjunct2, THEN conjunct2,
      THEN conjunct2, THEN conjunct2, THEN conjunct1, THEN mp, OF ok]
  show ?thesis
    by (intro conjI ka kp ke kv ok a p e v)
qed

end
